theory Spec2Isabelle
  imports Main "HOL-Library.Multiset"
begin

section \<open>Grimoire: the decklist job pipeline (package job)\<close>

text \<open>
  The package turns a decklist into a PDF through a job record that a queue worker
  drives. The model follows the Go source function by function. Everything that lies
  outside the package (the regular-expression matcher, the HTTP client, the JSON and
  image decoders, the PDF writer, the clock and the goroutine scheduler) is a field of
  the record \<open>world\<close>: the functions of the package are modelled in full, and each
  theorem holds for every behaviour of these collaborators unless it says otherwise.
\<close>

subsection \<open>Strings (Go package strings)\<close>

text \<open>A Go string is a sequence of bytes; \<open>char\<close> is a byte.\<close>

definition LF :: char where
  "LF = CHR 0x0A"

definition CR :: char where
  "CR = CHR 0x0D"

text \<open>
  \<open>strings.ReplaceAll(s, old, new)\<close> for a non-empty \<open>old\<close>: non-overlapping
  occurrences are replaced from the left.
\<close>

function ReplaceAll :: "string \<Rightarrow> string \<Rightarrow> string \<Rightarrow> string" where
  "ReplaceAll s old new =
     (if s = [] \<or> old = [] then s
      else if take (length old) s = old then new @ ReplaceAll (drop (length old) s) old new
      else hd s # ReplaceAll (tl s) old new)"
  by pat_completeness auto
termination
  by (relation "measure (\<lambda>(s, old, new). length s)") (auto simp: neq_Nil_conv)

declare ReplaceAll.simps [simp del]

text \<open>\<open>strings.Split(s, sep)\<close> for a separator of one byte; \<open>Split "" sep\<close> is \<open>[""]\<close>.\<close>

fun Split :: "string \<Rightarrow> char \<Rightarrow> string list" where
  "Split [] sep = [[]]"
| "Split (c # s) sep =
     (if c = sep then [] # Split s sep
      else (case Split s sep of [] \<Rightarrow> [[c]] | l # ls \<Rightarrow> (c # l) # ls))"

text \<open>
  \<open>strings.TrimSpace\<close> removes leading and trailing white space as Unicode defines it
  (\<open>unicode.IsSpace\<close>). On the UTF-8 bytes of the string these are the six ASCII
  characters and the encodings of U+0085, U+00A0, U+1680, U+2000 to U+200A, U+2028,
  U+2029, U+202F, U+205F and U+3000.
\<close>

definition asciiSpace :: "char \<Rightarrow> bool" where
  "asciiSpace c = (c \<in> set [CHR 0x09, CHR 0x0A, CHR 0x0B, CHR 0x0C, CHR 0x0D, CHR 0x20])"

definition space2 :: "string list" where
  "space2 = [[CHR 0xC2, CHR 0x85], [CHR 0xC2, CHR 0xA0]]"

definition space3 :: "string list" where
  "space3 =
     [[CHR 0xE1, CHR 0x9A, CHR 0x80],
      [CHR 0xE2, CHR 0x80, CHR 0x80], [CHR 0xE2, CHR 0x80, CHR 0x81],
      [CHR 0xE2, CHR 0x80, CHR 0x82], [CHR 0xE2, CHR 0x80, CHR 0x83],
      [CHR 0xE2, CHR 0x80, CHR 0x84], [CHR 0xE2, CHR 0x80, CHR 0x85],
      [CHR 0xE2, CHR 0x80, CHR 0x86], [CHR 0xE2, CHR 0x80, CHR 0x87],
      [CHR 0xE2, CHR 0x80, CHR 0x88], [CHR 0xE2, CHR 0x80, CHR 0x89],
      [CHR 0xE2, CHR 0x80, CHR 0x8A], [CHR 0xE2, CHR 0x80, CHR 0xA8],
      [CHR 0xE2, CHR 0x80, CHR 0xA9], [CHR 0xE2, CHR 0x80, CHR 0xAF],
      [CHR 0xE2, CHR 0x81, CHR 0x9F], [CHR 0xE3, CHR 0x80, CHR 0x80]]"

text \<open>The number of bytes of the white-space rune that \<open>s\<close> starts with, 0 if none.\<close>

definition leadingSpace :: "string \<Rightarrow> nat" where
  "leadingSpace s =
     (if s \<noteq> [] \<and> asciiSpace (hd s) then 1
      else if take 2 s \<in> set space2 then 2
      else if take 3 s \<in> set space3 then 3
      else 0)"

text \<open>The same for the rune that \<open>s\<close> ends with.\<close>

definition trailingSpace :: "string \<Rightarrow> nat" where
  "trailingSpace s =
     (if s \<noteq> [] \<and> asciiSpace (last s) then 1
      else if 2 \<le> length s \<and> drop (length s - 2) s \<in> set space2 then 2
      else if 3 \<le> length s \<and> drop (length s - 3) s \<in> set space3 then 3
      else 0)"

lemma leadingSpace_Nil: "leadingSpace [] = 0"
  by (simp add: leadingSpace_def space2_def space3_def)

lemma trailingSpace_Nil: "trailingSpace [] = 0"
  by (simp add: trailingSpace_def)

function TrimLeft :: "string \<Rightarrow> string" where
  "TrimLeft s = (if leadingSpace s = 0 then s else TrimLeft (drop (leadingSpace s) s))"
  by pat_completeness auto
termination
proof (relation "measure length")
  show "wf (measure length)" by simp
next
  fix s :: string
  assume "leadingSpace s \<noteq> 0"
  moreover from this have "s \<noteq> []" using leadingSpace_Nil by auto
  ultimately show "(drop (leadingSpace s) s, s) \<in> measure length"
    by simp
qed

declare TrimLeft.simps [simp del]

function TrimRight :: "string \<Rightarrow> string" where
  "TrimRight s =
     (if trailingSpace s = 0 then s else TrimRight (take (length s - trailingSpace s) s))"
  by pat_completeness auto
termination
proof (relation "measure length")
  show "wf (measure length)" by simp
next
  fix s :: string
  assume "trailingSpace s \<noteq> 0"
  moreover from this have "s \<noteq> []" using trailingSpace_Nil by auto
  ultimately show "(take (length s - trailingSpace s) s, s) \<in> measure length"
    by simp
qed

declare TrimRight.simps [simp del]

definition TrimSpace :: "string \<Rightarrow> string" where
  "TrimSpace s = TrimRight (TrimLeft s)"

subsection \<open>Errors\<close>

text \<open>
  A Go \<open>error\<close> is kept as a value that tells which \<open>fmt.Errorf\<close> or library built
  it: \<open>External\<close> is an error of a library (net/http, encoding/json, image, gopdf),
  \<open>ErrSyntax\<close> and \<open>ErrRange\<close> are those of strconv, \<open>ErrQueueShutdown\<close> and
  \<open>ErrMaxCapacity\<close> those of the queue; the others are the messages of package job,
  with the numbers and wrapped errors they print.
\<close>

datatype error =
    External string
  | ErrSyntax
  | ErrRange
  | EmptyLine
  | CouldNotParse string
  | InvalidQuantity error
  | HTTPRequestFailed nat error
  | APIRateLimited nat
  | APIError nat
  | JSONDecodeFailed error
  | FailedToParse string error
  | Encountered nat "error list"
  | PDFGenerationFailed error
  | HTTPError nat
  | FetchFailed nat "error option"
  | DecodeImageFailed error
  | EncodeImageFailed error
  | UnmarshalFailed error
  | JobNotFound string
  | ErrQueueShutdown
  | ErrMaxCapacity

text \<open>
  \<open>strconv.Atoi\<close>: an optional sign, then decimal digits only; the value must fit
  Go's 64-bit \<open>int\<close>.
\<close>

definition isDigit :: "char \<Rightarrow> bool" where
  "isDigit c = (48 \<le> (of_char c :: nat) \<and> (of_char c :: nat) \<le> 57)"

definition digitsValue :: "string \<Rightarrow> int" where
  "digitsValue ds = foldl (\<lambda>a c. 10 * a + (int (of_char c) - 48)) 0 ds"

definition Atoi :: "string \<Rightarrow> error + int" where
  "Atoi s =
     (let neg = (s \<noteq> [] \<and> hd s = CHR ''-'');
          ds = (if s \<noteq> [] \<and> (hd s = CHR ''+'' \<or> hd s = CHR ''-'') then tl s else s)
      in if ds = [] \<or> \<not> list_all isDigit ds then Inl ErrSyntax
         else let v = (if neg then - digitsValue ds else digitsValue ds)
              in if v < - (2 ^ 63) \<or> 2 ^ 63 - 1 < v then Inl ErrRange else Inr v)"

subsection \<open>Durations and the clock (Go package time)\<close>

text \<open>
  A \<open>time.Duration\<close> is a number of nanoseconds. A clock reading is the monotonic
  clock's value in nanoseconds; the zero \<open>time.Time\<close> (no reading yet) is \<open>None\<close>.
\<close>

definition Millisecond :: int where
  "Millisecond = 1000000"

definition Second :: int where
  "Second = 1000 * Millisecond"

definition Minute :: int where
  "Minute = 60 * Second"

definition Hour :: int where
  "Hour = 60 * Minute"

definition maxDuration :: int where
  "maxDuration = 2 ^ 63 - 1"

text \<open>
  \<open>t1.Sub(t)\<close>: the difference of the readings; against the zero time the
  difference exceeds what a Duration holds and \<open>Sub\<close> returns the largest Duration.
\<close>

definition Sub :: "int \<Rightarrow> int option \<Rightarrow> int" where
  "Sub t1 t = (case t of None \<Rightarrow> maxDuration | Some t0 \<Rightarrow> t1 - t0)"

subsection \<open>The rate limiter\<close>

text \<open>
  \<open>rateLimitWait\<close> runs under \<open>rateLimiterMutex\<close>, so its calls happen one after the
  other whatever goroutines issue them. One call reads the clock (\<open>now\<close>), sleeps if
  less than 100 ms have passed since \<open>lastRequestTime\<close>, reads the clock again and
  stores that reading, which the model returns. \<open>lag\<close> is the time by which the
  second reading exceeds the first plus the requested sleep: \<open>time.Sleep\<close> pauses
  for at least the duration asked, so \<open>lag\<close> is not negative on a real clock.
\<close>

record tick =
  now :: int
  lag :: int

definition rateLimitWait :: "tick \<Rightarrow> int option \<Rightarrow> int" where
  "rateLimitWait t lastRequestTime =
     (let elapsed = Sub (now t) lastRequestTime;
          slept = (if elapsed < 100 * Millisecond then 100 * Millisecond - elapsed else 0)
      in now t + slept + lag t)"

text \<open>
  A sequence of calls in the order in which they hold the mutex, and the values of
  \<open>lastRequestTime\<close> they record.
\<close>

fun recorded :: "int option \<Rightarrow> tick list \<Rightarrow> int list" where
  "recorded lastRequestTime [] = []"
| "recorded lastRequestTime (t # ts) =
     rateLimitWait t lastRequestTime # recorded (Some (rateLimitWait t lastRequestTime)) ts"

text \<open>
  The clock is monotonic: a call reads \<open>now\<close> after the previous call stored its
  reading, and no reading lies before an earlier one.
\<close>

fun monotonic :: "int option \<Rightarrow> tick list \<Rightarrow> bool" where
  "monotonic lastRequestTime [] = True"
| "monotonic lastRequestTime (t # ts) =
     ((case lastRequestTime of None \<Rightarrow> True | Some t0 \<Rightarrow> t0 \<le> now t) \<and> 0 \<le> lag t \<and>
      monotonic (Some (rateLimitWait t lastRequestTime)) ts)"

subsection \<open>Cards, HTTP responses and the collaborators outside the package\<close>

text \<open>
  The field \<open>Set\<close> of the Go struct is \<open>SetCode\<close> here.
  \<open>ImageURIs\<close> is a Go map from face label to URL. It is kept as the list of its
  entries, keys distinct, in the order of the map literal that builds it; the order in
  which a \<open>range\<close> loop visits the entries is not this order but the world's choice.
\<close>

record Card =
  Quantity :: int
  Name :: string
  SetCode :: string
  CollectorNumber :: string
  Layout :: string
  ImageURIs :: "(string \<times> string) list"

text \<open>
  An HTTP response: its status code, and what reading its body to the end returns.
  A request that fails in transport yields an error instead of a response.
\<close>

record response =
  StatusCode :: nat
  Body :: "error + string"

type_synonym http_result = "error + response"

definition StatusOK :: nat where
  "StatusOK = 200"

definition StatusTooManyRequests :: nat where
  "StatusTooManyRequests = 429"

text \<open>A page of the document: the URI it was added for and the image placed on it, if any.\<close>

record page =
  page_uri :: string
  page_image :: "string option"

text \<open>
  The behaviour of everything outside the package during one run of the handler.
  \<^item> \<open>strictMatch\<close>, \<open>fallbackMatch\<close>: \<open>FindStringSubmatch\<close> of the two patterns of
    \<open>ParseCard\<close>, as the four groups (quantity, name, set, collector number).
  \<^item> \<open>clientGet i k\<close>: the outcome of the \<open>k\<close>-th catalog request made for the \<open>i\<close>-th
    non-empty line.
  \<^item> \<open>jsonDecode body card\<close>: \<open>Decode(&card)\<close> on a response body.
  \<^item> \<open>httpGet i k\<close>: the outcome of the \<open>k\<close>-th image request made for the \<open>i\<close>-th URI.
  \<^item> \<open>imageDecode\<close>, \<open>jpegEncode\<close>: \<open>image.Decode\<close>, and drawing onto an RGBA image
    followed by \<open>jpeg.Encode\<close>.
  \<^item> \<open>ImageHolderByReader\<close>, \<open>WriteTo\<close>: the two calls into gopdf that can fail.
  \<^item> \<open>semaphoreOrder n\<close>: the order in which the goroutines of \<open>n\<close> lines acquire
    the semaphore, as indices into the non-empty lines.
  \<^item> \<open>rangeOrder i q m\<close>: the order in which the \<open>range\<close> loop over the map \<open>m\<close> of
    the \<open>i\<close>-th card visits its entries for copy \<open>q\<close>.
\<close>

record world =
  strictMatch :: "string \<Rightarrow> (string \<times> string \<times> string \<times> string) option"
  fallbackMatch :: "string \<Rightarrow> (string \<times> string \<times> string \<times> string) option"
  clientGet :: "nat \<Rightarrow> nat \<Rightarrow> http_result"
  jsonDecode :: "error + string \<Rightarrow> Card \<Rightarrow> error + Card"
  httpGet :: "nat \<Rightarrow> nat \<Rightarrow> http_result"
  imageDecode :: "string \<Rightarrow> error + string"
  jpegEncode :: "string \<Rightarrow> error + string"
  ImageHolderByReader :: "string \<Rightarrow> error + string"
  WriteTo :: "page list \<Rightarrow> error option"
  semaphoreOrder :: "nat \<Rightarrow> nat list"
  rangeOrder :: "nat \<Rightarrow> nat \<Rightarrow> (string \<times> string) list \<Rightarrow> (string \<times> string) list"

text \<open>What a function does besides returning: rate-limiter waits, requests and sleeps.\<close>

datatype event = RateLimitWait | Get string | Sleep int

definition after :: "event list \<Rightarrow> 'a \<times> event list \<Rightarrow> 'a \<times> event list" where
  "after evs r = (fst r, evs @ snd r)"

definition requests :: "event list \<Rightarrow> nat" where
  "requests evs = length (filter (\<lambda>e. case e of Get u \<Rightarrow> True | _ \<Rightarrow> False) evs)"

subsection \<open>ParseCard\<close>

definition maxRetries :: nat where
  "maxRetries = 3"

definition baseDelay :: int where
  "baseDelay = 100 * Millisecond"

definition cardURL :: "Card \<Rightarrow> string" where
  "cardURL c =
     ''https://api.scryfall.com/cards/'' @ SetCode c @ ''/'' @ CollectorNumber c"

text \<open>
  The request loop of \<open>ParseCard\<close>, from \<open>attempt\<close> on. \<open>get k\<close> is the outcome of
  the request of attempt \<open>k\<close>.
\<close>

function ParseCard_loop ::
  "world \<Rightarrow> (nat \<Rightarrow> http_result) \<Rightarrow> Card \<Rightarrow> nat \<Rightarrow> (error + Card) \<times> event list" where
  "ParseCard_loop w get c attempt =
     (if attempt < maxRetries then
        after [RateLimitWait, Get (cardURL c)]
          (case get attempt of
             Inl err \<Rightarrow>
               if attempt = maxRetries - 1 then (Inl (HTTPRequestFailed maxRetries err), [])
               else after [Sleep (baseDelay * 2 ^ attempt)]
                      (ParseCard_loop w get c (attempt + 1))
           | Inr resp \<Rightarrow>
               if StatusCode resp = StatusTooManyRequests then
                 if attempt = maxRetries - 1 then (Inl (APIRateLimited maxRetries), [])
                 else after [Sleep (5 * Second * 2 ^ attempt)]
                        (ParseCard_loop w get c (attempt + 1))
               else if StatusCode resp \<noteq> StatusOK then (Inl (APIError (StatusCode resp)), [])
               else (case jsonDecode w (Body resp) c of
                       Inl err \<Rightarrow> (Inl (JSONDecodeFailed err), [])
                     | Inr c' \<Rightarrow> (Inr c', [])))
      else (Inr c, []))"
  by pat_completeness auto
termination
  by (relation "measure (\<lambda>(w, get, c, attempt). maxRetries - attempt)") auto

declare ParseCard_loop.simps [simp del]

definition imageURL :: "Card \<Rightarrow> string" where
  "imageURL c = cardURL c @ ''?format=image&version=png''"

definition withImageURIs :: "Card \<Rightarrow> Card" where
  "withImageURIs c =
     (if Layout c = ''transform'' \<or> Layout c = ''modal_dfc''
      then c\<lparr>ImageURIs := [(''front'', imageURL c), (''back'', imageURL c @ ''&face=back'')]\<rparr>
      else c\<lparr>ImageURIs := [(''front'', imageURL c)]\<rparr>)"

text \<open>The part of \<open>ParseCard\<close> before the first request: the line becomes a card.\<close>

definition parseLine :: "world \<Rightarrow> string \<Rightarrow> error + Card" where
  "parseLine w line0 =
     (let line = TrimSpace line0 in
      if line = [] then Inl EmptyLine
      else
        (case (case strictMatch w line of
                 Some m \<Rightarrow> Some m
               | None \<Rightarrow>
                   (case fallbackMatch w line of
                      None \<Rightarrow> None
                    | Some (m1, m2, m3, m4) \<Rightarrow> Some (m1, m2, m3, TrimSpace m4))) of
           None \<Rightarrow> Inl (CouldNotParse line)
         | Some (m1, m2, m3, m4) \<Rightarrow>
             (case Atoi m1 of
                Inl err \<Rightarrow> Inl (InvalidQuantity err)
              | Inr quantity \<Rightarrow>
                  Inr \<lparr>Quantity = quantity, Name = TrimSpace m2, SetCode = m3,
                       CollectorNumber = m4, Layout = [], ImageURIs = []\<rparr>)))"

definition ParseCard ::
  "world \<Rightarrow> (nat \<Rightarrow> http_result) \<Rightarrow> string \<Rightarrow> (error + Card) \<times> event list" where
  "ParseCard w get line =
     (case parseLine w line of
        Inl err \<Rightarrow> (Inl err, [])
      | Inr c \<Rightarrow>
          (case ParseCard_loop w get c 0 of
             (Inl err, evs) \<Rightarrow> (Inl err, evs)
           | (Inr c', evs) \<Rightarrow> (Inr (withImageURIs c'), evs)))"

subsection \<open>FetchImageWithRetry and convertTo8Bit\<close>

function FetchImageWithRetry_loop ::
  "(nat \<Rightarrow> http_result) \<Rightarrow> string \<Rightarrow> nat \<Rightarrow> nat \<Rightarrow> error option
     \<Rightarrow> (error + string) \<times> event list" where
  "FetchImageWithRetry_loop get uri retries attempt lastErr =
     (if attempt \<le> retries then
        after ((if 0 < attempt then [Sleep (2 ^ (attempt - 1) * Second)] else [])
                 @ [RateLimitWait, Get uri])
          (case get attempt of
             Inl err \<Rightarrow> FetchImageWithRetry_loop get uri retries (attempt + 1) (Some err)
           | Inr resp \<Rightarrow>
               if StatusCode resp \<noteq> StatusOK then
                 after (if StatusCode resp = StatusTooManyRequests \<and> attempt < retries
                        then [Sleep (5 * Second * 2 ^ attempt)] else [])
                   (FetchImageWithRetry_loop get uri retries (attempt + 1)
                      (Some (HTTPError (StatusCode resp))))
               else (case Body resp of
                       Inl err \<Rightarrow>
                         FetchImageWithRetry_loop get uri retries (attempt + 1) (Some err)
                     | Inr body \<Rightarrow> (Inr body, [])))
      else (Inl (FetchFailed (retries + 1) lastErr), []))"
  by pat_completeness auto
termination
  by (relation "measure (\<lambda>(get, uri, retries, attempt, lastErr). Suc retries - attempt)") auto

declare FetchImageWithRetry_loop.simps [simp del]

definition FetchImageWithRetry ::
  "(nat \<Rightarrow> http_result) \<Rightarrow> string \<Rightarrow> nat \<Rightarrow> (error + string) \<times> event list" where
  "FetchImageWithRetry get uri retries = FetchImageWithRetry_loop get uri retries 0 None"

definition convertTo8Bit :: "world \<Rightarrow> string \<Rightarrow> error + string" where
  "convertTo8Bit w imageData =
     (case imageDecode w imageData of
        Inl err \<Rightarrow> Inl (DecodeImageFailed err)
      | Inr img \<Rightarrow>
          (case jpegEncode w img of
             Inl err \<Rightarrow> Inl (EncodeImageFailed err)
           | Inr buf \<Rightarrow> Inr buf))"

subsection \<open>GeneratePDF\<close>

text \<open>
  The first loop: cards in order, each copy in order, each entry of the map in the
  order the \<open>range\<close> loop happens to take.
\<close>

definition copyURIs :: "world \<Rightarrow> nat \<Rightarrow> Card \<Rightarrow> nat \<Rightarrow> string list" where
  "copyURIs w i c q = map snd (rangeOrder w i q (ImageURIs c))"

definition cardURIs :: "world \<Rightarrow> nat \<Rightarrow> Card \<Rightarrow> string list" where
  "cardURIs w i c = concat (map (copyURIs w i c) [0..<nat (Quantity c)])"

definition allURIs :: "world \<Rightarrow> Card list \<Rightarrow> string list" where
  "allURIs w cards = concat (map (\<lambda>i. cardURIs w i (cards ! i)) [0..<length cards])"

text \<open>
  The goroutine of index \<open>i\<close> writes \<open>errs[i]\<close> or \<open>imageData[i]\<close> and nothing
  else, so after \<open>wg.Wait()\<close> slot \<open>i\<close> holds the outcome of its own fetch whatever
  the order of completion.
\<close>

definition fetchAll :: "world \<Rightarrow> string list \<Rightarrow> (error + string) list" where
  "fetchAll w uris =
     map (\<lambda>i. fst (FetchImageWithRetry (httpGet w i) (uris ! i) 2)) [0..<length uris]"

text \<open>
  The last loop. A slot whose fetch failed adds nothing. Any other slot adds a page
  first and then tries to place the image: when the conversion or the image holder
  fails, the loop continues with the page already added.
\<close>

definition addPage :: "world \<Rightarrow> string \<Rightarrow> string \<Rightarrow> page" where
  "addPage w uri imageData =
     (case convertTo8Bit w imageData of
        Inl err \<Rightarrow> \<lparr>page_uri = uri, page_image = None\<rparr>
      | Inr converted \<Rightarrow>
          (case ImageHolderByReader w converted of
             Inl err \<Rightarrow> \<lparr>page_uri = uri, page_image = None\<rparr>
           | Inr imgHolder \<Rightarrow> \<lparr>page_uri = uri, page_image = Some imgHolder\<rparr>))"

fun addPages :: "world \<Rightarrow> (string \<times> (error + string)) list \<Rightarrow> page list" where
  "addPages w [] = []"
| "addPages w ((uri, Inl err) # rest) = addPages w rest"
| "addPages w ((uri, Inr imageData) # rest) = addPage w uri imageData # addPages w rest"

text \<open>The buffer returned holds the document; it is kept as the pages written to it.\<close>

definition GeneratePDF :: "world \<Rightarrow> Card list \<Rightarrow> error + page list" where
  "GeneratePDF w cards =
     (let uris = allURIs w cards in
      if length uris = 0 then
        (case WriteTo w [] of Some err \<Rightarrow> Inl err | None \<Rightarrow> Inr [])
      else
        (let pages = addPages w (zip uris (fetchAll w uris)) in
         case WriteTo w pages of Some err \<Rightarrow> Inl err | None \<Rightarrow> Inr pages))"

subsection \<open>Jobs and the job store\<close>

record GrimoireJob =
  ID :: string
  Status :: string
  PDF :: "page list option"
  Error :: "error option"
  CreatedAt :: int

record DecklistTask =
  JobID :: string
  Decklist :: string

text \<open>\<open>uuid\<close> is the identifier \<open>uuid.New()\<close> draws and \<open>clock\<close> the reading of \<open>time.Now()\<close>.\<close>

definition NewGrimoireJob :: "string \<Rightarrow> int \<Rightarrow> GrimoireJob" where
  "NewGrimoireJob uuid clock =
     \<lparr>ID = uuid, Status = ''queued'', PDF = None, Error = None, CreatedAt = clock\<rparr>"

definition setStatus :: "string \<Rightarrow> GrimoireJob \<Rightarrow> GrimoireJob" where
  "setStatus status j = j\<lparr>Status := status\<rparr>"

definition setError :: "error \<Rightarrow> GrimoireJob \<Rightarrow> GrimoireJob" where
  "setError err j = j\<lparr>Error := Some err, Status := ''error''\<rparr>"

definition setPDF :: "page list \<Rightarrow> GrimoireJob \<Rightarrow> GrimoireJob" where
  "setPDF pdf j = j\<lparr>PDF := Some pdf\<rparr>"

text \<open>
  The store \<open>jobs\<close> is a \<open>sync.Map\<close> from job id to job, kept as the list of its
  entries with distinct keys.
\<close>

type_synonym store = "(string \<times> GrimoireJob) list"

fun Store :: "string \<Rightarrow> GrimoireJob \<Rightarrow> store \<Rightarrow> store" where
  "Store k v [] = [(k, v)]"
| "Store k v ((k', v') # es) = (if k' = k then (k, v) # es else (k', v') # Store k v es)"

definition Delete :: "string \<Rightarrow> store \<Rightarrow> store" where
  "Delete k es = filter (\<lambda>e. fst e \<noteq> k) es"

definition GetJob :: "store \<Rightarrow> string \<Rightarrow> GrimoireJob option" where
  "GetJob jobs k = map_of jobs k"

text \<open>
  The queue of the worker pool, as the library documents it: \<open>Queue\<close> refuses a task
  after \<open>Release\<close> and when \<open>capacity\<close> tasks are already waiting.
\<close>

record queue =
  capacity :: nat
  waiting :: "DecklistTask list"
  released :: bool

definition InitQueue :: queue where
  "InitQueue = \<lparr>capacity = 100, waiting = [], released = False\<rparr>"

definition Queue :: "queue \<Rightarrow> DecklistTask \<Rightarrow> error + queue" where
  "Queue q task =
     (if released q then Inl ErrQueueShutdown
      else if 0 < capacity q \<and> capacity q \<le> length (waiting q) then Inl ErrMaxCapacity
      else Inr (q\<lparr>waiting := waiting q @ [task]\<rparr>))"

definition CreateJob ::
  "string \<Rightarrow> int \<Rightarrow> string \<Rightarrow> store \<times> queue \<Rightarrow> (error + GrimoireJob) \<times> store \<times> queue" where
  "CreateJob uuid clock decklist st =
     (let jobInstance = NewGrimoireJob uuid clock;
          jobs = Store (ID jobInstance) jobInstance (fst st);
          task = \<lparr>JobID = ID jobInstance, Decklist = decklist\<rparr>
      in case Queue (snd st) task of
           Inl err \<Rightarrow> (Inl err, Delete (ID jobInstance) jobs, snd st)
         | Inr q' \<Rightarrow> (Inr jobInstance, jobs, q'))"

text \<open>
  One cycle of \<open>cleanupJobs\<close>. \<open>since k\<close> is the clock reading at which \<open>Range\<close>
  visits the entry of key \<open>k\<close> and \<open>time.Since\<close> is evaluated for it.
\<close>

definition cleanupCycle :: "(string \<Rightarrow> int) \<Rightarrow> store \<Rightarrow> store" where
  "cleanupCycle since jobs =
     (let toDelete = map fst (filter (\<lambda>(k, j). since k - CreatedAt j > 1 * Hour) jobs)
      in fold Delete toDelete jobs)"

subsection \<open>ProcessDecklistHandler\<close>

text \<open>
  The manual retry around \<open>ParseCard\<close>: up to three calls, sleeping 1 s and 2 s
  between them. \<open>prev\<close> holds the variables \<open>card\<close> and \<open>err\<close>; each call consumes
  the outcomes of the requests it makes.
\<close>

definition emptyCard :: Card where
  "emptyCard =
     \<lparr>Quantity = 0, Name = [], SetCode = [], CollectorNumber = [], Layout = [], ImageURIs = []\<rparr>"

function parseRetry ::
  "world \<Rightarrow> (nat \<Rightarrow> http_result) \<Rightarrow> string \<Rightarrow> nat \<Rightarrow> error + Card
     \<Rightarrow> (error + Card) \<times> event list" where
  "parseRetry w get line attempt prev =
     (if attempt < 3 then
        (case ParseCard w get line of
           (Inr c, evs) \<Rightarrow> (Inr c, evs)
         | (Inl err, evs) \<Rightarrow>
             after (evs @ (if attempt < 2 then [Sleep (Second * (int attempt + 1))] else []))
               (parseRetry w (\<lambda>k. get (k + requests evs)) line (attempt + 1) (Inl err)))
      else (prev, []))"
  by pat_completeness auto
termination
  by (relation "measure (\<lambda>(w, get, line, attempt, prev). 3 - attempt)") auto

declare parseRetry.simps [simp del]

text \<open>What the goroutine of the \<open>i\<close>-th non-empty line sends on \<open>resultsChan\<close>.\<close>

definition lineResult :: "world \<Rightarrow> nat \<Rightarrow> string \<Rightarrow> error + Card" where
  "lineResult w i line =
     (case fst (parseRetry w (clientGet w i) line 0 (Inr emptyCard)) of
        Inl err \<Rightarrow> Inl (FailedToParse line err)
      | Inr c \<Rightarrow> Inr c)"

definition nonEmptyLines :: "string \<Rightarrow> string list" where
  "nonEmptyLines decklist =
     filter (\<lambda>line. TrimSpace line \<noteq> [])
       (Split (ReplaceAll (ReplaceAll decklist [CR, LF] [LF]) [CR] [LF]) LF)"

text \<open>
  The results in the order the handler receives them from the channel: each goroutine
  sends while it holds the semaphore, so this is the order of \<open>semaphoreOrder\<close>
  (an index that is no line has no goroutine and is passed over).
\<close>

definition received :: "world \<Rightarrow> string list \<Rightarrow> (error + Card) list" where
  "received w lines =
     map (\<lambda>i. lineResult w i (lines ! i))
       (filter (\<lambda>i. i < length lines) (semaphoreOrder w (length lines)))"

definition errorsOf :: "(error + Card) list \<Rightarrow> error list" where
  "errorsOf rs = concat (map (\<lambda>r. case r of Inl err \<Rightarrow> [err] | Inr c \<Rightarrow> []) rs)"

definition cardsOf :: "(error + Card) list \<Rightarrow> Card list" where
  "cardsOf rs = concat (map (\<lambda>r. case r of Inl err \<Rightarrow> [] | Inr c \<Rightarrow> [c]) rs)"

text \<open>
  The calls the handler makes on the job, in order, and the error it returns. Each
  call takes the job's lock for itself, so a reader can see the job between any two.
\<close>

datatype job_op = SetStatus string | SetError error | SetPDF "page list"

fun perform :: "job_op \<Rightarrow> GrimoireJob \<Rightarrow> GrimoireJob" where
  "perform (SetStatus status) j = setStatus status j"
| "perform (SetError err) j = setError err j"
| "perform (SetPDF pdf) j = setPDF pdf j"

definition handlerOps :: "world \<Rightarrow> string \<Rightarrow> job_op list \<times> error option" where
  "handlerOps w decklist =
     (let lines = nonEmptyLines decklist in
      if length lines = 0 then ([SetStatus ''parse'', SetStatus ''complete''], None)
      else
        (let rs = received w lines; errors = errorsOf rs; cards = cardsOf rs in
         if 0 < length errors then
           ([SetStatus ''parse'', SetError (Encountered (length errors) errors)],
            Some (Encountered (length errors) errors))
         else
           (case GeneratePDF w cards of
              Inl err \<Rightarrow>
                ([SetStatus ''parse'', SetStatus ''fetch'', SetStatus ''generate'',
                  SetError (PDFGenerationFailed err)], Some err)
            | Inr pdfBuffer \<Rightarrow>
                ([SetStatus ''parse'', SetStatus ''fetch'', SetStatus ''generate'',
                  SetPDF pdfBuffer, SetStatus ''complete''], None))))"

text \<open>
  \<open>payload\<close> is what \<open>json.Unmarshal\<close> makes of the message. The handler returns the
  store with the job as its calls leave it, and its error.
\<close>

definition ProcessDecklistHandler ::
  "world \<Rightarrow> error + DecklistTask \<Rightarrow> store \<Rightarrow> store \<times> error option" where
  "ProcessDecklistHandler w payload jobs =
     (case payload of
        Inl err \<Rightarrow> (jobs, Some (UnmarshalFailed err))
      | Inr dt \<Rightarrow>
          (case GetJob jobs (JobID dt) of
             None \<Rightarrow> (jobs, Some (JobNotFound (JobID dt)))
           | Some job \<Rightarrow>
               (Store (JobID dt) (fold perform (fst (handlerOps w (Decklist dt))) job) jobs,
                snd (handlerOps w (Decklist dt)))))"

text \<open>
  The states of the job a reader can see while the handler runs: the job after each
  prefix of the handler's calls.
\<close>

definition observable :: "world \<Rightarrow> string \<Rightarrow> GrimoireJob \<Rightarrow> GrimoireJob list" where
  "observable w decklist job =
     map (\<lambda>n. fold perform (take n (fst (handlerOps w decklist))) job)
       [0..<Suc (length (fst (handlerOps w decklist)))]"

subsection \<open>The result query of the API server\<close>

datatype reply =
    NotFound string
  | InternalServerError string
  | BadRequest string
  | SendPDF "page list"

definition handleGetJobPDF :: "store \<Rightarrow> string \<Rightarrow> reply" where
  "handleGetJobPDF jobs jobID =
     (case GetJob jobs jobID of
        None \<Rightarrow> NotFound ''Job not found''
      | Some jobInstance \<Rightarrow>
          (case Error jobInstance of
             Some err \<Rightarrow> InternalServerError ''Job failed''
           | None \<Rightarrow>
               if Status jobInstance \<noteq> ''complete''
               then BadRequest (''Job not complete, current status: '' @ Status jobInstance)
               else (case PDF jobInstance of
                       None \<Rightarrow> InternalServerError ''PDF not available''
                     | Some buf \<Rightarrow> SendPDF buf)))"

subsection \<open>What the claims assume of the world, and the face count of a card\<close>

text \<open>A \<open>range\<close> loop over a map visits every entry once, in whatever order.\<close>

definition rangeVisitsAll :: "world \<Rightarrow> bool" where
  "rangeVisitsAll w = (\<forall>i q m. mset (rangeOrder w i q m) = mset m)"

text \<open>Every goroutine of the \<open>n\<close> lines acquires the semaphore once.\<close>

definition everyLineRuns :: "world \<Rightarrow> nat \<Rightarrow> bool" where
  "everyLineRuns w n = (mset (semaphoreOrder w n) = mset [0..<n])"

definition faceCount :: "Card \<Rightarrow> nat" where
  "faceCount c = (if Layout c = ''transform'' \<or> Layout c = ''modal_dfc'' then 2 else 1)"

text \<open>An attempt of \<open>FetchImageWithRetry\<close> that does not yield the image.\<close>

definition attemptFails :: "http_result \<Rightarrow> bool" where
  "attemptFails r =
     (case r of Inl err \<Rightarrow> True | Inr resp \<Rightarrow> StatusCode resp \<noteq> StatusOK \<or> isl (Body resp))"

text \<open>The pages \<open>GeneratePDF\<close> hands to \<open>WriteTo\<close> for a list of cards.\<close>

definition assembled :: "world \<Rightarrow> Card list \<Rightarrow> page list" where
  "assembled w cards = addPages w (zip (allURIs w cards) (fetchAll w (allURIs w cards)))"

subsection \<open>Predicates on the states of a job\<close>

text \<open>
  What every state of a job satisfies while its handler runs (\<open>blank\<close>: the decklist
  has no non-empty line), and the two final statuses.
\<close>

definition consistent :: "bool \<Rightarrow> GrimoireJob \<Rightarrow> bool" where
  "consistent blank j =
     (((Error j \<noteq> None) = (Status j = ''error'')) \<and>
      (PDF j = None \<or> Status j = ''generate'' \<or> Status j = ''complete'') \<and>
      (blank \<or> Status j \<noteq> ''complete'' \<or> PDF j \<noteq> None))"

definition terminal :: "GrimoireJob \<Rightarrow> bool" where
  "terminal j = (Status j = ''complete'' \<or> Status j = ''error'')"

subsection \<open>Concrete stores, queues and runs\<close>

text \<open>Three calls used as a concrete run: 5 ms, 30 ms and 400 ms after the clock's origin.\<close>

definition calls3 :: "tick list" where
  "calls3 =
     [\<lparr>now = 5 * Millisecond, lag = 0\<rparr>,
      \<lparr>now = 30 * Millisecond, lag = 2 * Millisecond\<rparr>,
      \<lparr>now = 400 * Millisecond, lag = 0\<rparr>]"

text \<open>A queue holding 100 tasks, a store with one job, and a store with an old and a young job.\<close>

definition fullQueue :: queue where
  "fullQueue = InitQueue\<lparr>waiting := replicate 100 \<lparr>JobID = ''j0'', Decklist = ''1 Opt (inv) 64''\<rparr>\<rparr>"

definition oneJob :: store where
  "oneJob = [(''j0'', NewGrimoireJob ''j0'' 0)]"

definition twoJobs :: store where
  "twoJobs =
     [(''old'', (NewGrimoireJob ''old'' 0)\<lparr>Status := ''complete'', PDF := Some []\<rparr>),
      (''young'', NewGrimoireJob ''young'' (31 * Minute))]"

text \<open>
  A world in which everything succeeds: six lines the strict pattern matches, a
  catalog that answers 200 and classifies the card of set \<open>isd\<close> as \<open>transform\<close>,
  images that download, convert and serialise; the goroutines acquire the semaphore in
  the order of their lines and every \<open>range\<close> loop visits \<open>front\<close> first.
\<close>

definition catalog :: world where
  "catalog =
     \<lparr>strictMatch = (\<lambda>line.
        if line = ''1 Lightning Bolt (lea) 161''
          then Some (''1'', ''Lightning Bolt'', ''lea'', ''161'')
        else if line = ''1 Delver of Secrets (isd) 51''
          then Some (''1'', ''Delver of Secrets'', ''isd'', ''51'')
        else if line = ''1 Opt (inv) 64''
          then Some (''1'', ''Opt'', ''inv'', ''64'')
        else if line = ''1 Counterspell (ice) 64''
          then Some (''1'', ''Counterspell'', ''ice'', ''64'')
        else if line = ''4 Lightning Bolt (lea) 161''
          then Some (''4'', ''Lightning Bolt'', ''lea'', ''161'')
        else if line = ''2 Delver of Secrets (isd) 51''
          then Some (''2'', ''Delver of Secrets'', ''isd'', ''51'')
        else None),
      fallbackMatch = (\<lambda>line. None),
      clientGet = (\<lambda>i k. Inr \<lparr>StatusCode = 200, Body = Inr ''json''\<rparr>),
      jsonDecode = (\<lambda>body c.
        case body of
          Inl err \<Rightarrow> Inl err
        | Inr s \<Rightarrow> Inr (c\<lparr>Layout := (if SetCode c = ''isd'' then ''transform'' else ''normal'')\<rparr>)),
      httpGet = (\<lambda>i k. Inr \<lparr>StatusCode = 200, Body = Inr ''png''\<rparr>),
      imageDecode = (\<lambda>b. Inr b),
      jpegEncode = (\<lambda>b. Inr ''jpeg''),
      ImageHolderByReader = (\<lambda>b. Inr b),
      WriteTo = (\<lambda>pages. None),
      semaphoreOrder = (\<lambda>n. [0..<n]),
      rangeOrder = (\<lambda>i q m. m)\<rparr>"

definition deckOpt :: string where
  "deckOpt = ''1 Opt (inv) 64''"

text \<open>Three catalogs that never answer 200: throttling, a server error, no connection.\<close>

definition throttled :: "nat \<Rightarrow> http_result" where
  "throttled k = Inr \<lparr>StatusCode = 429, Body = Inr []\<rparr>"

definition serverError :: "nat \<Rightarrow> http_result" where
  "serverError k = Inr \<lparr>StatusCode = 500, Body = Inr []\<rparr>"

definition unreachable :: "nat \<Rightarrow> http_result" where
  "unreachable k = Inl (External ''connection refused'')"

text \<open>Two cards as the catalog describes them, before their image URIs are set.\<close>

definition bolt :: Card where
  "bolt =
     \<lparr>Quantity = 4, Name = ''Lightning Bolt'', SetCode = ''lea'', CollectorNumber = ''161'',
      Layout = ''normal'', ImageURIs = []\<rparr>"

definition delver :: Card where
  "delver =
     \<lparr>Quantity = 2, Name = ''Delver of Secrets'', SetCode = ''isd'', CollectorNumber = ''51'',
      Layout = ''transform'', ImageURIs = []\<rparr>"

text \<open>
  A decklist of two lines, and two worlds that differ from \<open>catalog\<close> in scheduling only:
  in one the goroutine started last acquires the semaphore first, in the other the
  \<open>range\<close> loops visit the map entries in reverse.
\<close>

definition deck2 :: string where
  "deck2 = ''1 Lightning Bolt (lea) 161'' @ [LF] @ ''1 Delver of Secrets (isd) 51'' @ [LF]"

definition lastLineFirst :: world where
  "lastLineFirst = catalog\<lparr>semaphoreOrder := (\<lambda>n. rev [0..<n])\<rparr>"

definition backFaceFirst :: world where
  "backFaceFirst = catalog\<lparr>rangeOrder := (\<lambda>i q m. rev m)\<rparr>"

text \<open>A decklist of four copies of a single-faced and two copies of a two-faced card.\<close>

definition deckPlaysets :: string where
  "deckPlaysets = ''4 Lightning Bolt (lea) 161'' @ [LF] @ ''2 Delver of Secrets (isd) 51''"

text \<open>
  A decklist of three single-faced cards with a blank line and a CRLF line ending, and a
  world in which every request for the second image is answered 404.
\<close>

definition deck3 :: string where
  "deck3 =
     ''1 Lightning Bolt (lea) 161'' @ [LF] @ ''1 Counterspell (ice) 64'' @ [LF] @ [LF]
       @ ''1 Opt (inv) 64'' @ [CR, LF]"

definition secondImageDown :: world where
  "secondImageDown =
     catalog\<lparr>httpGet := (\<lambda>i k.
       if i = 1 then Inr \<lparr>StatusCode = 404, Body = Inr []\<rparr>
       else Inr \<lparr>StatusCode = 200, Body = Inr ''png''\<rparr>)\<rparr>"

text \<open>A world in which no downloaded image can be decoded.\<close>

definition undecodable :: world where
  "undecodable = catalog\<lparr>imageDecode := (\<lambda>b. Inl (External ''image: unknown format''))\<rparr>"

section \<open>Properties\<close>

subsection \<open>The rate limiter\<close>

lemma length_recorded: "length (recorded l ts) = length ts"
  by (induction ts arbitrary: l) simp_all

lemma rateLimitWait_step:
  assumes "t0 \<le> now t" "0 \<le> lag t"
  shows "t0 + 100 * Millisecond \<le> rateLimitWait t (Some t0)"
  using assms by (simp add: rateLimitWait_def Sub_def Let_def)

lemma recorded_spaced:
  "monotonic l ts \<Longrightarrow> Suc k < length ts \<Longrightarrow>
   recorded l ts ! k + 100 * Millisecond \<le> recorded l ts ! Suc k"
proof (induction ts arbitrary: l k)
  case Nil
  then show ?case by simp
next
  case (Cons t ts)
  let ?t' = "rateLimitWait t l"
  from Cons.prems(1) have mono: "monotonic (Some ?t') ts" by simp
  from Cons.prems(2) obtain u us where ts: "ts = u # us" by (cases ts) auto
  show ?case
  proof (cases k)
    case 0
    from mono ts have "?t' \<le> now u" "0 \<le> lag u" by simp_all
    then have "?t' + 100 * Millisecond \<le> rateLimitWait u (Some ?t')"
      by (rule rateLimitWait_step)
    with 0 ts show ?thesis by simp
  next
    case (Suc j)
    with Cons.prems(2) have "Suc j < length ts" by simp
    from Cons.IH [OF mono this] Suc show ?thesis by simp
  qed
qed

lemma recorded_span:
  "monotonic l ts \<Longrightarrow> k < length ts \<Longrightarrow>
   recorded l ts ! 0 + int k * (100 * Millisecond) \<le> recorded l ts ! k"
proof (induction k)
  case 0
  then show ?case by simp
next
  case (Suc k)
  then have "recorded l ts ! 0 + int k * (100 * Millisecond) \<le> recorded l ts ! k" by simp
  moreover from recorded_spaced [OF Suc.prems(1), of k] Suc.prems(2)
  have "recorded l ts ! k + 100 * Millisecond \<le> recorded l ts ! Suc k" by simp
  ultimately show ?case by (simp add: algebra_simps)
qed

text \<open>
  C7. Whatever goroutines call \<open>rateLimitWait\<close>, the mutex orders the calls. On a
  monotonic clock the times recorded by consecutive calls lie at least 100 ms apart, so
  the first and the last of M calls lie at least (M - 1) * 100 ms apart.
\<close>

theorem rateLimitWait_spacing:
  assumes "monotonic lastRequestTime calls"
  shows "(\<forall>k. Suc k < length calls \<longrightarrow>
            recorded lastRequestTime calls ! k + 100 * Millisecond
              \<le> recorded lastRequestTime calls ! Suc k) \<and>
         (calls \<noteq> [] \<longrightarrow>
            hd (recorded lastRequestTime calls) + (int (length calls) - 1) * (100 * Millisecond)
              \<le> last (recorded lastRequestTime calls))"
proof (intro conjI allI impI)
  fix k assume "Suc k < length calls"
  with assms show "recorded lastRequestTime calls ! k + 100 * Millisecond
              \<le> recorded lastRequestTime calls ! Suc k"
    by (rule recorded_spaced)
next
  assume ne: "calls \<noteq> []"
  then have len: "length calls - 1 < length calls" by (cases calls) auto
  have rne: "recorded lastRequestTime calls \<noteq> []"
    using ne length_recorded [of lastRequestTime calls] by auto
  from recorded_span [OF assms len] ne
  have "recorded lastRequestTime calls ! 0 + (int (length calls) - 1) * (100 * Millisecond)
          \<le> recorded lastRequestTime calls ! (length calls - 1)"
    by (cases calls) (auto simp: of_nat_diff)
  with rne show "hd (recorded lastRequestTime calls) + (int (length calls) - 1) * (100 * Millisecond)
              \<le> last (recorded lastRequestTime calls)"
    by (simp add: hd_conv_nth last_conv_nth length_recorded)
qed

theorem rateLimitWait_spacing_witness:
  "monotonic None calls3 \<and>
   recorded None calls3 = [5 * Millisecond, 107 * Millisecond, 400 * Millisecond] \<and>
   recorded None calls3 ! 0 + 100 * Millisecond \<le> recorded None calls3 ! Suc 0 \<and>
   hd (recorded None calls3) + (int (length calls3) - 1) * (100 * Millisecond)
     \<le> last (recorded None calls3)"
proof -
  have m: "monotonic None calls3"
    by (simp add: calls3_def rateLimitWait_def Sub_def maxDuration_def Millisecond_def)
  have r: "recorded None calls3 = [5 * Millisecond, 107 * Millisecond, 400 * Millisecond]"
    by (simp add: calls3_def rateLimitWait_def Sub_def maxDuration_def Millisecond_def)
  note c = rateLimitWait_spacing [OF m]
  have k: "Suc 0 < length calls3" and ne: "calls3 \<noteq> []"
    by (simp_all add: calls3_def)
  from c have "\<forall>k. Suc k < length calls3 \<longrightarrow>
      recorded None calls3 ! k + 100 * Millisecond \<le> recorded None calls3 ! Suc k"
    by (rule conjunct1)
  then have "Suc 0 < length calls3 \<longrightarrow>
      recorded None calls3 ! 0 + 100 * Millisecond \<le> recorded None calls3 ! Suc 0"
    by (rule spec)
  from this k have c1: "recorded None calls3 ! 0 + 100 * Millisecond \<le> recorded None calls3 ! Suc 0"
    by (rule mp)
  from c have "calls3 \<noteq> [] \<longrightarrow>
      hd (recorded None calls3) + (int (length calls3) - 1) * (100 * Millisecond)
        \<le> last (recorded None calls3)"
    by (rule conjunct2)
  from this ne have c2: "hd (recorded None calls3) + (int (length calls3) - 1) * (100 * Millisecond)
        \<le> last (recorded None calls3)"
    by (rule mp)
  from m r c1 c2 show ?thesis by (intro conjI)
qed

subsection \<open>The job store: creation and cleanup\<close>

lemma Delete_Store_fresh: "k \<notin> fst ` set es \<Longrightarrow> Delete k (Store k v es) = es"
  by (induction es) (auto simp: Delete_def)

lemma GetJob_fresh: "k \<notin> fst ` set es \<Longrightarrow> GetJob es k = None"
  by (simp add: GetJob_def map_of_eq_None_iff)

text \<open>
  C8. When \<open>Queue\<close> refuses the task of a new job (a full queue of capacity 100 does),
  \<open>CreateJob\<close> returns the error and leaves the store as it was: the record stored
  under the fresh id is deleted again, and no job is found under that id.
\<close>

theorem CreateJob_rollback:
  assumes fresh: "uuid \<notin> fst ` set jobs"
      and fails: "Queue q \<lparr>JobID = uuid, Decklist = decklist\<rparr> = Inl err"
  shows "CreateJob uuid clock decklist (jobs, q) = (Inl err, jobs, q) \<and>
         GetJob (fst (snd (CreateJob uuid clock decklist (jobs, q)))) uuid = None"
proof -
  have "CreateJob uuid clock decklist (jobs, q) = (Inl err, jobs, q)"
    using fails Delete_Store_fresh [OF fresh]
    by (simp add: CreateJob_def NewGrimoireJob_def Let_def)
  then show ?thesis using GetJob_fresh [OF fresh] by simp
qed

theorem CreateJob_rollback_witness:
  "''j1'' \<notin> fst ` set oneJob \<and>
   Queue fullQueue \<lparr>JobID = ''j1'', Decklist = ''1 Opt (inv) 64''\<rparr> = Inl ErrMaxCapacity \<and>
   CreateJob ''j1'' 7 ''1 Opt (inv) 64'' (oneJob, fullQueue) = (Inl ErrMaxCapacity, oneJob, fullQueue) \<and>
   GetJob (fst (snd (CreateJob ''j1'' 7 ''1 Opt (inv) 64'' (oneJob, fullQueue)))) ''j1'' = None"
proof -
  have fresh: "''j1'' \<notin> fst ` set oneJob"
    by (simp add: oneJob_def)
  have fails: "Queue fullQueue \<lparr>JobID = ''j1'', Decklist = ''1 Opt (inv) 64''\<rparr> = Inl ErrMaxCapacity"
    by (simp add: Queue_def fullQueue_def InitQueue_def)
  note c = CreateJob_rollback [OF fresh fails, of 7]
  from c have c1: "CreateJob ''j1'' 7 ''1 Opt (inv) 64'' (oneJob, fullQueue) = (Inl ErrMaxCapacity, oneJob, fullQueue)"
    by (rule conjunct1)
  from c have c2: "GetJob (fst (snd (CreateJob ''j1'' 7 ''1 Opt (inv) 64'' (oneJob, fullQueue)))) ''j1'' = None"
    by (rule conjunct2)
  from fresh fails c1 c2 show ?thesis by (intro conjI)
qed

text \<open>The operations on the store keep its keys distinct.\<close>

lemma keys_Store:
  "map fst (Store k v es) = (if k \<in> set (map fst es) then map fst es else map fst es @ [k])"
  by (induction es) force+

lemma distinct_Store: "distinct (map fst es) \<Longrightarrow> distinct (map fst (Store k v es))"
  by (simp add: keys_Store)

lemma distinct_Delete: "distinct (map fst es) \<Longrightarrow> distinct (map fst (Delete k es))"
  by (simp add: Delete_def distinct_map_filter)

lemma distinct_cleanupCycle:
  "distinct (map fst jobs) \<Longrightarrow> distinct (map fst (cleanupCycle since jobs))"
proof -
  have "distinct (map fst es) \<Longrightarrow> distinct (map fst (fold Delete ks es))" for ks es
    by (induction ks arbitrary: es) (simp_all add: distinct_Delete)
  then show "distinct (map fst jobs) \<Longrightarrow> distinct (map fst (cleanupCycle since jobs))"
    by (simp add: cleanupCycle_def)
qed

lemma map_of_Delete: "map_of (Delete k' es) k = (if k = k' then None else map_of es k)"
  by (induction es) (auto simp: Delete_def)

lemma map_of_fold_Delete:
  "map_of (fold Delete ks es) k = (if k \<in> set ks then None else map_of es k)"
  by (induction ks arbitrary: es) (auto simp: map_of_Delete)

lemma expired_key:
  "k \<in> set (map fst (filter (\<lambda>(k, j). since k - CreatedAt j > 1 * Hour) jobs)) \<longleftrightarrow>
   (\<exists>j. (k, j) \<in> set jobs \<and> since k - CreatedAt j > 1 * Hour)"
  by (induction jobs) auto

lemma GetJob_cleanupCycle:
  assumes "distinct (map fst jobs)"
  shows "GetJob (cleanupCycle since jobs) k =
         (case GetJob jobs k of
            None \<Rightarrow> None
          | Some j \<Rightarrow> if since k - CreatedAt j > 1 * Hour then None else Some j)"
proof (cases "map_of jobs k")
  case None
  then show ?thesis
    by (simp add: GetJob_def cleanupCycle_def map_of_fold_Delete)
next
  case (Some j)
  have "(k, j') \<in> set jobs \<longleftrightarrow> j' = j" for j'
  proof -
    have "(k, j') \<in> set jobs \<longleftrightarrow> map_of jobs k = Some j'"
      using assms by simp
    with Some show ?thesis by auto
  qed
  then have "k \<in> set (map fst (filter (\<lambda>(k, j). since k - CreatedAt j > 1 * Hour) jobs))
          \<longleftrightarrow> since k - CreatedAt j > 1 * Hour"
    unfolding expired_key by simp
  with Some show ?thesis
    by (simp add: GetJob_def cleanupCycle_def map_of_fold_Delete)
qed

text \<open>
  C9. After a cleanup cycle a job is gone exactly when it was in the store and, at the
  moment the cycle looked at it, its \<open>CreatedAt\<close> lay more than one hour back; its
  status plays no part. A job created 30 minutes before survives and is still found.
\<close>

theorem cleanupCycle_expiry:
  assumes "distinct (map fst jobs)"
  shows "(GetJob (cleanupCycle since jobs) k = None \<longleftrightarrow>
            (GetJob jobs k = None \<or>
             (\<exists>j. GetJob jobs k = Some j \<and> since k - CreatedAt j > 1 * Hour))) \<and>
         (\<forall>j. GetJob jobs k = Some j \<and> since k - CreatedAt j \<le> 1 * Hour \<longrightarrow>
            GetJob (cleanupCycle since jobs) k = Some j) \<and>
         (\<forall>j. GetJob jobs k = Some j \<and> since k - CreatedAt j = 30 * Minute \<longrightarrow>
            GetJob (cleanupCycle since jobs) k = Some j)"
  using GetJob_cleanupCycle [OF assms, of since k]
  by (auto simp: Hour_def Minute_def Second_def Millisecond_def split: option.splits if_splits)


theorem cleanupCycle_expiry_witness:
  "distinct (map fst twoJobs) \<and>
   GetJob (cleanupCycle (\<lambda>k. 61 * Minute) twoJobs) ''old'' = None \<and>
   GetJob (cleanupCycle (\<lambda>k. 61 * Minute) twoJobs) ''young''
     = Some (NewGrimoireJob ''young'' (31 * Minute))"
proof -
  have d: "distinct (map fst twoJobs)"
    by (simp add: twoJobs_def)
  have old: "GetJob twoJobs ''old''
      = Some ((NewGrimoireJob ''old'' 0)\<lparr>Status := ''complete'', PDF := Some []\<rparr>)"
    by (simp add: twoJobs_def GetJob_def)
  have young: "GetJob twoJobs ''young'' = Some (NewGrimoireJob ''young'' (31 * Minute))"
    by (simp add: twoJobs_def GetJob_def)
  note c = cleanupCycle_expiry [OF d, of "\<lambda>k. 61 * Minute"]
  have "GetJob (cleanupCycle (\<lambda>k. 61 * Minute) twoJobs) ''old'' = None \<longleftrightarrow>
            (GetJob twoJobs ''old'' = None \<or>
             (\<exists>j. GetJob twoJobs ''old'' = Some j \<and> 61 * Minute - CreatedAt j > 1 * Hour))"
    using c [of "''old''"] by (rule conjunct1)
  moreover have "\<exists>j. GetJob twoJobs ''old'' = Some j \<and> 61 * Minute - CreatedAt j > 1 * Hour"
    using old by (simp add: NewGrimoireJob_def Hour_def Minute_def Second_def Millisecond_def)
  ultimately have c1: "GetJob (cleanupCycle (\<lambda>k. 61 * Minute) twoJobs) ''old'' = None"
    by simp
  have "\<forall>j. GetJob twoJobs ''young'' = Some j \<and> 61 * Minute - CreatedAt j = 30 * Minute \<longrightarrow>
            GetJob (cleanupCycle (\<lambda>k. 61 * Minute) twoJobs) ''young'' = Some j"
    using c [of "''young''"] by simp
  then have "GetJob twoJobs ''young'' = Some (NewGrimoireJob ''young'' (31 * Minute)) \<and>
        61 * Minute - CreatedAt (NewGrimoireJob ''young'' (31 * Minute)) = 30 * Minute \<longrightarrow>
            GetJob (cleanupCycle (\<lambda>k. 61 * Minute) twoJobs) ''young''
              = Some (NewGrimoireJob ''young'' (31 * Minute))"
    by (rule spec)
  moreover have "61 * Minute - CreatedAt (NewGrimoireJob ''young'' (31 * Minute)) = 30 * Minute"
    by (simp add: NewGrimoireJob_def)
  ultimately have c2: "GetJob (cleanupCycle (\<lambda>k. 61 * Minute) twoJobs) ''young''
      = Some (NewGrimoireJob ''young'' (31 * Minute))"
    using young by simp
  from d c1 c2 show ?thesis by (intro conjI)
qed

subsection \<open>The handler and the states of the job\<close>

lemma GetJob_Store: "GetJob (Store k v es) k = Some v"
  by (induction es) (auto simp: GetJob_def)

text \<open>
  C4. A decklist of one space has no non-empty line. Whatever the world does, the handler
  sets the status to \<open>complete\<close> and returns before \<open>GeneratePDF\<close> and \<open>setPDF\<close>:
  the job ends complete with no document, and the result query answers 500
  "PDF not available".
\<close>

theorem blank_decklist_completes_without_document:
  "fst (ProcessDecklistHandler w (Inr \<lparr>JobID = ''j1'', Decklist = '' ''\<rparr>)
          [(''j1'', NewGrimoireJob ''j1'' 0)])
     = [(''j1'', \<lparr>ID = ''j1'', Status = ''complete'', PDF = None, Error = None, CreatedAt = 0\<rparr>)] \<and>
   handleGetJobPDF
       (fst (ProcessDecklistHandler w (Inr \<lparr>JobID = ''j1'', Decklist = '' ''\<rparr>)
          [(''j1'', NewGrimoireJob ''j1'' 0)])) ''j1''
     = InternalServerError ''PDF not available''"
proof -
  have lines: "nonEmptyLines '' '' = []"
    by code_simp
  have ops: "handlerOps w '' '' = ([SetStatus ''parse'', SetStatus ''complete''], None)"
    by (simp add: handlerOps_def lines)
  have run: "fst (ProcessDecklistHandler w (Inr \<lparr>JobID = ''j1'', Decklist = '' ''\<rparr>)
          [(''j1'', NewGrimoireJob ''j1'' 0)])
     = [(''j1'', \<lparr>ID = ''j1'', Status = ''complete'', PDF = None, Error = None, CreatedAt = 0\<rparr>)]"
    by (simp add: ProcessDecklistHandler_def GetJob_def ops NewGrimoireJob_def setStatus_def)
  show ?thesis
    unfolding run by (simp add: handleGetJobPDF_def GetJob_def)
qed

lemma handlerOps_shapes:
  "(nonEmptyLines d = [] \<and> fst (handlerOps w d) = [SetStatus ''parse'', SetStatus ''complete'']) \<or>
   (nonEmptyLines d \<noteq> [] \<and> (\<exists>e. fst (handlerOps w d) = [SetStatus ''parse'', SetError e])) \<or>
   (nonEmptyLines d \<noteq> [] \<and>
      (\<exists>e. fst (handlerOps w d) =
         [SetStatus ''parse'', SetStatus ''fetch'', SetStatus ''generate'', SetError e])) \<or>
   (nonEmptyLines d \<noteq> [] \<and>
      (\<exists>b. fst (handlerOps w d) =
         [SetStatus ''parse'', SetStatus ''fetch'', SetStatus ''generate'', SetPDF b,
          SetStatus ''complete'']))"
  by (auto simp: handlerOps_def Let_def split: sum.splits)

lemma observable_eq:
  "fst (handlerOps w d) = ops \<Longrightarrow>
   observable w d job = map (\<lambda>n. fold perform (take n ops) job) [0..<Suc (length ops)]"
  by (simp add: observable_def)

lemma observable_facts:
  "list_all (consistent (nonEmptyLines d = [])) (observable w d (NewGrimoireJob uuid clock)) \<and>
   list_all (\<lambda>j. \<not> terminal j) (butlast (observable w d (NewGrimoireJob uuid clock))) \<and>
   \<not> (list_ex (\<lambda>j. Status j = ''complete'') (observable w d (NewGrimoireJob uuid clock)) \<and>
      list_ex (\<lambda>j. Status j = ''error'') (observable w d (NewGrimoireJob uuid clock)))"
  using handlerOps_shapes [of d w]
  by (elim disjE conjE exE)
     (simp_all add: observable_eq consistent_def terminal_def NewGrimoireJob_def
        setStatus_def setError_def setPDF_def)


text \<open>
  C2, as the code has it. In every state a reader can see while the handler runs on a
  new job: the error is set exactly when the status is \<open>error\<close>; a document is set
  only in status \<open>generate\<close> or \<open>complete\<close>; for a decklist with a non-empty line,
  status \<open>complete\<close> comes with a document; no run shows both \<open>complete\<close> and
  \<open>error\<close>; and after a state with one of these two statuses nothing changes.
\<close>

theorem job_states_invariant:
  "(\<forall>j \<in> set (observable w d (NewGrimoireJob uuid clock)).
      ((Error j \<noteq> None) = (Status j = ''error'')) \<and>
      (PDF j \<noteq> None \<longrightarrow> Status j = ''generate'' \<or> Status j = ''complete'') \<and>
      (nonEmptyLines d \<noteq> [] \<and> Status j = ''complete'' \<longrightarrow> PDF j \<noteq> None)) \<and>
   \<not> ((\<exists>j \<in> set (observable w d (NewGrimoireJob uuid clock)). Status j = ''complete'') \<and>
      (\<exists>j \<in> set (observable w d (NewGrimoireJob uuid clock)). Status j = ''error'')) \<and>
   (\<forall>m n. m \<le> n \<and> n < length (observable w d (NewGrimoireJob uuid clock)) \<and>
      (Status (observable w d (NewGrimoireJob uuid clock) ! m) = ''complete'' \<or>
       Status (observable w d (NewGrimoireJob uuid clock) ! m) = ''error'') \<longrightarrow>
      observable w d (NewGrimoireJob uuid clock) ! n
        = observable w d (NewGrimoireJob uuid clock) ! m)"
proof -
  let ?obs = "observable w d (NewGrimoireJob uuid clock)"
  note facts = observable_facts [of d w uuid clock]
  from facts have inv: "list_all (consistent (nonEmptyLines d = [])) ?obs" by simp
  from facts have live: "list_all (\<lambda>j. \<not> terminal j) (butlast ?obs)" by simp
  from facts have excl: "\<not> (list_ex (\<lambda>j. Status j = ''complete'') ?obs \<and>
      list_ex (\<lambda>j. Status j = ''error'') ?obs)" by simp
  have a: "\<forall>j \<in> set ?obs.
      ((Error j \<noteq> None) = (Status j = ''error'')) \<and>
      (PDF j \<noteq> None \<longrightarrow> Status j = ''generate'' \<or> Status j = ''complete'') \<and>
      (nonEmptyLines d \<noteq> [] \<and> Status j = ''complete'' \<longrightarrow> PDF j \<noteq> None)"
    using inv unfolding list_all_iff consistent_def by auto
  have b: "\<not> ((\<exists>j \<in> set ?obs. Status j = ''complete'') \<and> (\<exists>j \<in> set ?obs. Status j = ''error''))"
    using excl unfolding list_ex_iff by auto
  have c: "?obs ! n = ?obs ! m"
    if "m \<le> n" "n < length ?obs"
       "Status (?obs ! m) = ''complete'' \<or> Status (?obs ! m) = ''error''" for m n
  proof (cases "m < length ?obs - 1")
    case True
    then have m: "m < length (butlast ?obs)" by simp
    then have "butlast ?obs ! m \<in> set (butlast ?obs)" by (rule nth_mem)
    with m have "?obs ! m \<in> set (butlast ?obs)" by (simp add: nth_butlast)
    with live have "\<not> terminal (?obs ! m)" unfolding list_all_iff by simp
    with that(3) show ?thesis by (simp add: terminal_def)
  next
    case False
    with that(1,2) have "n = m" by simp
    then show ?thesis by simp
  qed
  from c have c': "\<forall>m n. m \<le> n \<and> n < length ?obs \<and>
      (Status (?obs ! m) = ''complete'' \<or> Status (?obs ! m) = ''error'') \<longrightarrow>
      ?obs ! n = ?obs ! m"
    by simp
  from a b c' show ?thesis by (intro conjI)
qed

lemma catalog_deckOpt_lines: "nonEmptyLines deckOpt = [''1 Opt (inv) 64'']"
  by code_simp

lemma catalog_deckOpt_ops:
  "fst (handlerOps catalog deckOpt) =
     [SetStatus ''parse'', SetStatus ''fetch'', SetStatus ''generate'',
      SetPDF [\<lparr>page_uri = ''https://api.scryfall.com/cards/inv/64?format=image&version=png'',
               page_image = Some ''jpeg''\<rparr>],
      SetStatus ''complete'']"
  by code_simp

lemma catalog_deckOpt_observable:
  "observable catalog deckOpt job =
     [job,
      setStatus ''parse'' job,
      setStatus ''fetch'' (setStatus ''parse'' job),
      setStatus ''generate'' (setStatus ''fetch'' (setStatus ''parse'' job)),
      setPDF [\<lparr>page_uri = ''https://api.scryfall.com/cards/inv/64?format=image&version=png'',
               page_image = Some ''jpeg''\<rparr>]
        (setStatus ''generate'' (setStatus ''fetch'' (setStatus ''parse'' job))),
      setStatus ''complete''
        (setPDF [\<lparr>page_uri = ''https://api.scryfall.com/cards/inv/64?format=image&version=png'',
                  page_image = Some ''jpeg''\<rparr>]
           (setStatus ''generate'' (setStatus ''fetch'' (setStatus ''parse'' job))))]"
  by (simp add: observable_def catalog_deckOpt_ops)

theorem job_states_invariant_witness:
  "observable catalog deckOpt (NewGrimoireJob ''j1'' 0) ! 5
      \<in> set (observable catalog deckOpt (NewGrimoireJob ''j1'' 0)) \<and>
   nonEmptyLines deckOpt \<noteq> [] \<and>
   Status (observable catalog deckOpt (NewGrimoireJob ''j1'' 0) ! 5) = ''complete'' \<and>
   PDF (observable catalog deckOpt (NewGrimoireJob ''j1'' 0) ! 5) \<noteq> None \<and>
   observable catalog deckOpt (NewGrimoireJob ''j1'' 0) ! 4
      \<in> set (observable catalog deckOpt (NewGrimoireJob ''j1'' 0)) \<and>
   PDF (observable catalog deckOpt (NewGrimoireJob ''j1'' 0) ! 4) \<noteq> None \<and>
   (Status (observable catalog deckOpt (NewGrimoireJob ''j1'' 0) ! 4) = ''generate'' \<or>
    Status (observable catalog deckOpt (NewGrimoireJob ''j1'' 0) ! 4) = ''complete'')"
proof -
  let ?obs = "observable catalog deckOpt (NewGrimoireJob ''j1'' 0)"
  have "5 < length ?obs"
    by (simp add: catalog_deckOpt_observable)
  then have mem: "?obs ! 5 \<in> set ?obs"
    by (rule nth_mem)
  have "4 < length ?obs"
    by (simp add: catalog_deckOpt_observable)
  then have mem4: "?obs ! 4 \<in> set ?obs"
    by (rule nth_mem)
  have lines: "nonEmptyLines deckOpt \<noteq> []"
    by (simp add: catalog_deckOpt_lines)
  have st: "Status (?obs ! 5) = ''complete''"
    by (simp add: catalog_deckOpt_observable setStatus_def)
  have pdf4: "PDF (?obs ! 4) \<noteq> None"
    by (simp add: catalog_deckOpt_observable setStatus_def setPDF_def)
  from job_states_invariant [of catalog deckOpt "''j1''" 0]
  have inv: "\<forall>j \<in> set ?obs.
      ((Error j \<noteq> None) = (Status j = ''error'')) \<and>
      (PDF j \<noteq> None \<longrightarrow> Status j = ''generate'' \<or> Status j = ''complete'') \<and>
      (nonEmptyLines deckOpt \<noteq> [] \<and> Status j = ''complete'' \<longrightarrow> PDF j \<noteq> None)"
    by (rule conjunct1)
  from inv mem have "((Error (?obs ! 5) \<noteq> None) = (Status (?obs ! 5) = ''error'')) \<and>
      (PDF (?obs ! 5) \<noteq> None \<longrightarrow> Status (?obs ! 5) = ''generate'' \<or> Status (?obs ! 5) = ''complete'') \<and>
      (nonEmptyLines deckOpt \<noteq> [] \<and> Status (?obs ! 5) = ''complete'' \<longrightarrow> PDF (?obs ! 5) \<noteq> None)"
    by (rule bspec)
  then have "(PDF (?obs ! 5) \<noteq> None \<longrightarrow> Status (?obs ! 5) = ''generate'' \<or> Status (?obs ! 5) = ''complete'') \<and>
      (nonEmptyLines deckOpt \<noteq> [] \<and> Status (?obs ! 5) = ''complete'' \<longrightarrow> PDF (?obs ! 5) \<noteq> None)"
    by (rule conjunct2)
  then have "nonEmptyLines deckOpt \<noteq> [] \<and> Status (?obs ! 5) = ''complete'' \<longrightarrow> PDF (?obs ! 5) \<noteq> None"
    by (rule conjunct2)
  moreover from lines st have "nonEmptyLines deckOpt \<noteq> [] \<and> Status (?obs ! 5) = ''complete''"
    by (rule conjI)
  ultimately have pdf: "PDF (?obs ! 5) \<noteq> None"
    by (rule mp)
  from inv mem4 have "((Error (?obs ! 4) \<noteq> None) = (Status (?obs ! 4) = ''error'')) \<and>
      (PDF (?obs ! 4) \<noteq> None \<longrightarrow> Status (?obs ! 4) = ''generate'' \<or> Status (?obs ! 4) = ''complete'') \<and>
      (nonEmptyLines deckOpt \<noteq> [] \<and> Status (?obs ! 4) = ''complete'' \<longrightarrow> PDF (?obs ! 4) \<noteq> None)"
    by (rule bspec)
  then have "(PDF (?obs ! 4) \<noteq> None \<longrightarrow> Status (?obs ! 4) = ''generate'' \<or> Status (?obs ! 4) = ''complete'') \<and>
      (nonEmptyLines deckOpt \<noteq> [] \<and> Status (?obs ! 4) = ''complete'' \<longrightarrow> PDF (?obs ! 4) \<noteq> None)"
    by (rule conjunct2)
  then have "PDF (?obs ! 4) \<noteq> None \<longrightarrow> Status (?obs ! 4) = ''generate'' \<or> Status (?obs ! 4) = ''complete''"
    by (rule conjunct1)
  from this pdf4 have st4: "Status (?obs ! 4) = ''generate'' \<or> Status (?obs ! 4) = ''complete''"
    by (rule mp)
  from mem lines st pdf mem4 pdf4 st4 show ?thesis by (intro conjI)
qed

text \<open>
  C2, as stated, fails: \<open>setPDF\<close> and the following \<open>setStatus\<close> take the lock one
  after the other, and between them a reader sees a job with a document in status
  \<open>generate\<close>.
\<close>

theorem document_before_complete_counterexample:
  "\<not> ((PDF (observable catalog deckOpt (NewGrimoireJob ''j1'' 0) ! 4) \<noteq> None)
        = (Status (observable catalog deckOpt (NewGrimoireJob ''j1'' 0) ! 4) = ''complete'')) \<and>
   Status (observable catalog deckOpt (NewGrimoireJob ''j1'' 0) ! 4) = ''generate'' \<and>
   PDF (observable catalog deckOpt (NewGrimoireJob ''j1'' 0) ! 4)
     = Some [\<lparr>page_uri = ''https://api.scryfall.com/cards/inv/64?format=image&version=png'',
              page_image = Some ''jpeg''\<rparr>]"
  by (simp add: catalog_deckOpt_observable setStatus_def setPDF_def)

subsection \<open>Retries of the catalog lookup\<close>

lemma requests_after: "requests (snd (after evs r)) = requests evs + requests (snd r)"
  by (simp add: after_def requests_def)

lemma fst_after: "fst (after evs r) = fst r"
  by (simp add: after_def)

lemma requests_ParseCard_loop:
  "requests (snd (ParseCard_loop w get c attempt)) \<le> maxRetries - attempt"
proof (induction w get c attempt rule: ParseCard_loop.induct)
  case (1 w get c attempt)
  show ?case
  proof (cases "attempt < maxRetries")
    case False
    then show ?thesis
      by (subst ParseCard_loop.simps) (simp add: requests_def)
  next
    case True
    have pre: "requests [RateLimitWait, Get (cardURL c)] = 1"
      by (simp add: requests_def)
    show ?thesis
    proof (cases "get attempt")
      case (Inl err)
      show ?thesis
      proof (cases "attempt = maxRetries - 1")
        case last: True
        with True Inl show ?thesis
          by (subst ParseCard_loop.simps) (simp add: requests_after pre, simp add: requests_def)
      next
        case more: False
        from "1.IH"(1) [OF True Inl more]
        have "requests (snd (ParseCard_loop w get c (attempt + 1))) \<le> maxRetries - (attempt + 1)" .
        with True Inl more show ?thesis
          by (subst ParseCard_loop.simps) (simp add: requests_after pre, simp add: requests_def)
      qed
    next
      case (Inr resp)
      show ?thesis
      proof (cases "StatusCode resp = StatusTooManyRequests \<and> attempt \<noteq> maxRetries - 1")
        case again: True
        from "1.IH"(2) [OF True Inr] again
        have "requests (snd (ParseCard_loop w get c (attempt + 1))) \<le> maxRetries - (attempt + 1)"
          by simp
        with True Inr again show ?thesis
          by (subst ParseCard_loop.simps) (simp add: requests_after pre, simp add: requests_def)
      next
        case stop: False
        with True Inr show ?thesis
          by (subst ParseCard_loop.simps)
             (auto simp: after_def requests_def split: sum.splits)
      qed
    qed
  qed
qed

lemma requests_ParseCard: "requests (snd (ParseCard w get line)) \<le> 3"
proof (cases "parseLine w line")
  case (Inl err)
  then show ?thesis by (simp add: ParseCard_def requests_def)
next
  case (Inr c)
  have "requests (snd (ParseCard_loop w get c 0)) \<le> 3"
    using requests_ParseCard_loop [of w get c 0] by (simp add: maxRetries_def)
  moreover obtain r evs where "ParseCard_loop w get c 0 = (r, evs)"
    by (cases "ParseCard_loop w get c 0")
  ultimately show ?thesis
    using Inr by (cases r) (simp_all add: ParseCard_def)
qed

lemma requests_parseRetry:
  "requests (snd (parseRetry w get line attempt prev)) \<le> 3 * (3 - attempt)"
proof (induction w get line attempt prev rule: parseRetry.induct)
  case (1 w get line attempt prev)
  show ?case
  proof (cases "attempt < 3")
    case False
    then show ?thesis
      by (subst parseRetry.simps) (simp add: requests_def)
  next
    case True
    obtain r evs where pc: "ParseCard w get line = (r, evs)"
      by (cases "ParseCard w get line")
    have evs: "requests evs \<le> 3"
      using requests_ParseCard [of w get line] pc by simp
    show ?thesis
    proof (cases r)
      case (Inr c)
      with True pc evs show ?thesis
        by (subst parseRetry.simps) simp
    next
      case (Inl err)
      from "1.IH" [OF True pc [symmetric, unfolded Inl] refl]
      have "requests (snd (parseRetry w (\<lambda>k. get (k + requests evs)) line (attempt + 1) (Inl err)))
              \<le> 3 * (3 - (attempt + 1))" .
      moreover have "requests (evs @ (if attempt < 2 then [Sleep (Second * (int attempt + 1))] else []))
              = requests evs"
        by (simp add: requests_def)
      ultimately show ?thesis
        using True pc Inl evs
        by (subst parseRetry.simps) (simp add: requests_after)
    qed
  qed
qed


lemma ParseCard_loop_transport:
  assumes "attempt < 2" "get attempt = Inl err"
  shows "ParseCard_loop w get c attempt =
           after [RateLimitWait, Get (cardURL c), Sleep (100 * Millisecond * 2 ^ attempt)]
             (ParseCard_loop w get c (attempt + 1))"
  using assms
  by (subst ParseCard_loop.simps) (simp add: maxRetries_def baseDelay_def after_def)

lemma ParseCard_loop_throttled:
  assumes "attempt < 2" "get attempt = Inr resp" "StatusCode resp = 429"
  shows "ParseCard_loop w get c attempt =
           after [RateLimitWait, Get (cardURL c), Sleep (5 * Second * 2 ^ attempt)]
             (ParseCard_loop w get c (attempt + 1))"
  using assms
  by (subst ParseCard_loop.simps)
     (simp add: maxRetries_def StatusTooManyRequests_def after_def)

lemma ParseCard_loop_last_transport:
  assumes "get 2 = Inl err"
  shows "ParseCard_loop w get c 2
           = (Inl (HTTPRequestFailed 3 err), [RateLimitWait, Get (cardURL c)])"
  using assms
  by (subst ParseCard_loop.simps) (simp add: maxRetries_def after_def)

lemma ParseCard_loop_last_throttled:
  assumes "get 2 = Inr resp" "StatusCode resp = 429"
  shows "ParseCard_loop w get c 2 = (Inl (APIRateLimited 3), [RateLimitWait, Get (cardURL c)])"
  using assms
  by (subst ParseCard_loop.simps)
     (simp add: maxRetries_def StatusTooManyRequests_def after_def)

lemma ParseCard_loop_status:
  assumes "attempt < 3" "get attempt = Inr resp" "StatusCode resp \<noteq> 200" "StatusCode resp \<noteq> 429"
  shows "ParseCard_loop w get c attempt
           = (Inl (APIError (StatusCode resp)), [RateLimitWait, Get (cardURL c)])"
  using assms
  by (subst ParseCard_loop.simps)
     (simp add: maxRetries_def StatusTooManyRequests_def StatusOK_def after_def)

lemma parseRetry_success:
  assumes "attempt < 3" "ParseCard w get line = (Inr c', evs)"
  shows "parseRetry w get line attempt prev = (Inr c', evs)"
  using assms by (subst parseRetry.simps) simp

lemma parseRetry_first:
  assumes "ParseCard w get line = (Inl err, evs)"
  shows "parseRetry w get line 0 prev =
           after (evs @ [Sleep (1 * Second)])
             (parseRetry w (\<lambda>k. get (k + requests evs)) line 1 (Inl err))"
  using assms by (subst parseRetry.simps) simp

lemma parseRetry_second:
  assumes "ParseCard w get line = (Inl err, evs)"
  shows "parseRetry w get line 1 prev =
           after (evs @ [Sleep (2 * Second)])
             (parseRetry w (\<lambda>k. get (k + requests evs)) line 2 (Inl err))"
  using assms by (subst parseRetry.simps) (simp add: numeral_2_eq_2 mult.commute)

lemma parseRetry_third:
  assumes "ParseCard w get line = (Inl err, evs)"
  shows "parseRetry w get line 2 prev = (Inl err, evs)"
proof -
  have "parseRetry w (\<lambda>k. get (k + requests evs)) line (2 + 1) (Inl err) = (Inl err, [])"
    by (subst parseRetry.simps) simp
  with assms show ?thesis
    by (subst parseRetry.simps) (simp add: after_def)
qed

text \<open>
  C3, as the code has it. One call of \<open>ParseCard\<close> makes at most 3 requests, and the
  handler's three calls for a line at most 9. Before the last attempt a transport error is
  retried after 100 ms * 2^attempt and a status 429 after 5 s * 2^attempt. At the last
  attempt a transport error ends the call with "HTTP request failed after 3 attempts" and a
  429 with "API rate limited after 3 attempts", two different errors. Any other status
  than 200 ends the call at once with "API error", with no sleep and no further request.
  The handler's loop returns the card of the first call of \<open>ParseCard\<close> that succeeds;
  after a failed first call it sleeps 1 s and calls again, after a failed second call it
  sleeps 2 s and calls again, and a failed third call ends it with that call's error and
  no sleep.
\<close>

theorem ParseCard_retry_policy:
  "requests (snd (ParseCard w get line)) \<le> 3 \<and>
   requests (snd (parseRetry w get line 0 prev)) \<le> 9 \<and>
   (\<forall>attempt err. attempt < 2 \<and> get attempt = Inl err \<longrightarrow>
      ParseCard_loop w get c attempt =
        after [RateLimitWait, Get (cardURL c), Sleep (100 * Millisecond * 2 ^ attempt)]
          (ParseCard_loop w get c (attempt + 1))) \<and>
   (\<forall>attempt resp. attempt < 2 \<and> get attempt = Inr resp \<and> StatusCode resp = 429 \<longrightarrow>
      ParseCard_loop w get c attempt =
        after [RateLimitWait, Get (cardURL c), Sleep (5 * Second * 2 ^ attempt)]
          (ParseCard_loop w get c (attempt + 1))) \<and>
   (\<forall>err. get 2 = Inl err \<longrightarrow>
      ParseCard_loop w get c 2
        = (Inl (HTTPRequestFailed 3 err), [RateLimitWait, Get (cardURL c)])) \<and>
   (\<forall>resp. get 2 = Inr resp \<and> StatusCode resp = 429 \<longrightarrow>
      ParseCard_loop w get c 2 = (Inl (APIRateLimited 3), [RateLimitWait, Get (cardURL c)])) \<and>
   (\<forall>attempt resp. attempt < 3 \<and> get attempt = Inr resp \<and>
        StatusCode resp \<noteq> 200 \<and> StatusCode resp \<noteq> 429 \<longrightarrow>
      ParseCard_loop w get c attempt
        = (Inl (APIError (StatusCode resp)), [RateLimitWait, Get (cardURL c)])) \<and>
   (\<forall>err. HTTPRequestFailed 3 err \<noteq> APIRateLimited 3) \<and>
   (\<forall>attempt c' evs. attempt < 3 \<and> ParseCard w get line = (Inr c', evs) \<longrightarrow>
      parseRetry w get line attempt prev = (Inr c', evs)) \<and>
   (\<forall>err evs. ParseCard w get line = (Inl err, evs) \<longrightarrow>
      parseRetry w get line 0 prev =
        after (evs @ [Sleep (1 * Second)])
          (parseRetry w (\<lambda>k. get (k + requests evs)) line 1 (Inl err))) \<and>
   (\<forall>err evs. ParseCard w get line = (Inl err, evs) \<longrightarrow>
      parseRetry w get line 1 prev =
        after (evs @ [Sleep (2 * Second)])
          (parseRetry w (\<lambda>k. get (k + requests evs)) line 2 (Inl err))) \<and>
   (\<forall>err evs. ParseCard w get line = (Inl err, evs) \<longrightarrow>
      parseRetry w get line 2 prev = (Inl err, evs))"
proof (intro conjI allI impI)
  show "requests (snd (ParseCard w get line)) \<le> 3"
    by (rule requests_ParseCard)
  show "requests (snd (parseRetry w get line 0 prev)) \<le> 9"
    using requests_parseRetry [of w get line 0 prev] by simp
qed (simp_all add: ParseCard_loop_transport ParseCard_loop_throttled
       ParseCard_loop_last_transport ParseCard_loop_last_throttled ParseCard_loop_status
       parseRetry_success parseRetry_first parseRetry_second [unfolded One_nat_def]
       parseRetry_third)

theorem ParseCard_retry_policy_witness:
  "throttled 0 = Inr \<lparr>StatusCode = 429, Body = Inr []\<rparr> \<and>
   throttled (Suc 0) = Inr \<lparr>StatusCode = 429, Body = Inr []\<rparr> \<and>
   throttled 2 = Inr \<lparr>StatusCode = 429, Body = Inr []\<rparr> \<and>
   ParseCard_loop catalog throttled emptyCard 0 =
     (Inl (APIRateLimited 3),
      [RateLimitWait, Get (cardURL emptyCard), Sleep (5 * Second),
       RateLimitWait, Get (cardURL emptyCard), Sleep (10 * Second),
       RateLimitWait, Get (cardURL emptyCard)]) \<and>
   unreachable 0 = Inl (External ''connection refused'') \<and>
   unreachable (Suc 0) = Inl (External ''connection refused'') \<and>
   unreachable 2 = Inl (External ''connection refused'') \<and>
   ParseCard_loop catalog unreachable emptyCard 0 =
     (Inl (HTTPRequestFailed 3 (External ''connection refused'')),
      [RateLimitWait, Get (cardURL emptyCard), Sleep (100 * Millisecond),
       RateLimitWait, Get (cardURL emptyCard), Sleep (200 * Millisecond),
       RateLimitWait, Get (cardURL emptyCard)]) \<and>
   serverError 0 = Inr \<lparr>StatusCode = 500, Body = Inr []\<rparr> \<and>
   ParseCard_loop catalog serverError emptyCard 0 =
     (Inl (APIError 500), [RateLimitWait, Get (cardURL emptyCard)]) \<and>
   ParseCard catalog serverError deckOpt
     = (Inl (APIError 500), [RateLimitWait, Get ''https://api.scryfall.com/cards/inv/64'']) \<and>
   parseRetry catalog serverError deckOpt 0 (Inr emptyCard)
     = (Inl (APIError 500),
        [RateLimitWait, Get ''https://api.scryfall.com/cards/inv/64'', Sleep (1 * Second),
         RateLimitWait, Get ''https://api.scryfall.com/cards/inv/64'', Sleep (2 * Second),
         RateLimitWait, Get ''https://api.scryfall.com/cards/inv/64'']) \<and>
   ParseCard catalog (clientGet catalog 0) deckOpt
     = (Inr (withImageURIs
          \<lparr>Quantity = 1, Name = ''Opt'', SetCode = ''inv'', CollectorNumber = ''64'',
            Layout = ''normal'', ImageURIs = []\<rparr>),
        [RateLimitWait, Get ''https://api.scryfall.com/cards/inv/64'']) \<and>
   parseRetry catalog (clientGet catalog 0) deckOpt 0 (Inr emptyCard)
     = (Inr (withImageURIs
          \<lparr>Quantity = 1, Name = ''Opt'', SetCode = ''inv'', CollectorNumber = ''64'',
            Layout = ''normal'', ImageURIs = []\<rparr>),
        [RateLimitWait, Get ''https://api.scryfall.com/cards/inv/64''])"
proof -
  let ?resp = "\<lparr>StatusCode = 429, Body = Inr []\<rparr>"
  let ?down = "External ''connection refused''"
  let ?bad = "\<lparr>StatusCode = 500, Body = Inr []\<rparr>"
  have g0: "throttled 0 = Inr ?resp" and g1: "throttled (Suc 0) = Inr ?resp"
    and g2: "throttled 2 = Inr ?resp"
    by (simp_all add: throttled_def)
  have u0: "unreachable 0 = Inl ?down" and u1: "unreachable (Suc 0) = Inl ?down"
    and u2: "unreachable 2 = Inl ?down"
    by (simp_all add: unreachable_def)
  have s0: "serverError 0 = Inr ?bad"
    by (simp add: serverError_def)
  note p = ParseCard_retry_policy [of catalog throttled deckOpt "Inr emptyCard" emptyCard]
  note q = ParseCard_retry_policy [of catalog unreachable deckOpt "Inr emptyCard" emptyCard]
  note r = ParseCard_retry_policy [of catalog serverError deckOpt "Inr emptyCard" emptyCard]
  from p have again: "\<forall>attempt resp. attempt < 2 \<and> throttled attempt = Inr resp \<and>
        StatusCode resp = 429 \<longrightarrow>
      ParseCard_loop catalog throttled emptyCard attempt =
        after [RateLimitWait, Get (cardURL emptyCard), Sleep (5 * Second * 2 ^ attempt)]
          (ParseCard_loop catalog throttled emptyCard (attempt + 1))"
    by simp
  from p have final: "\<forall>resp. throttled 2 = Inr resp \<and> StatusCode resp = 429 \<longrightarrow>
      ParseCard_loop catalog throttled emptyCard 2
        = (Inl (APIRateLimited 3), [RateLimitWait, Get (cardURL emptyCard)])"
    by simp
  from final g2 have a2: "ParseCard_loop catalog throttled emptyCard 2
        = (Inl (APIRateLimited 3), [RateLimitWait, Get (cardURL emptyCard)])"
    by simp
  have "Suc 0 < 2 \<and> throttled (Suc 0) = Inr ?resp \<and> StatusCode ?resp = 429 \<longrightarrow>
      ParseCard_loop catalog throttled emptyCard (Suc 0) =
        after [RateLimitWait, Get (cardURL emptyCard), Sleep (5 * Second * 2 ^ Suc 0)]
          (ParseCard_loop catalog throttled emptyCard (Suc 0 + 1))"
    using again by blast
  with g1 have a1: "ParseCard_loop catalog throttled emptyCard (Suc 0) =
        after [RateLimitWait, Get (cardURL emptyCard), Sleep (10 * Second)]
          (ParseCard_loop catalog throttled emptyCard 2)"
    by (simp add: numeral_2_eq_2)
  have "(0::nat) < 2 \<and> throttled 0 = Inr ?resp \<and> StatusCode ?resp = 429 \<longrightarrow>
      ParseCard_loop catalog throttled emptyCard 0 =
        after [RateLimitWait, Get (cardURL emptyCard), Sleep (5 * Second * 2 ^ 0)]
          (ParseCard_loop catalog throttled emptyCard (0 + 1))"
    using again by blast
  with g0 have a0: "ParseCard_loop catalog throttled emptyCard 0 =
        after [RateLimitWait, Get (cardURL emptyCard), Sleep (5 * Second)]
          (ParseCard_loop catalog throttled emptyCard (Suc 0))"
    by simp
  have run: "ParseCard_loop catalog throttled emptyCard 0 =
     (Inl (APIRateLimited 3),
      [RateLimitWait, Get (cardURL emptyCard), Sleep (5 * Second),
       RateLimitWait, Get (cardURL emptyCard), Sleep (10 * Second),
       RateLimitWait, Get (cardURL emptyCard)])"
    by (simp add: a0 a1 a2 after_def)
  from q have retry: "\<forall>attempt err. attempt < 2 \<and> unreachable attempt = Inl err \<longrightarrow>
      ParseCard_loop catalog unreachable emptyCard attempt =
        after [RateLimitWait, Get (cardURL emptyCard), Sleep (100 * Millisecond * 2 ^ attempt)]
          (ParseCard_loop catalog unreachable emptyCard (attempt + 1))"
    by simp
  from q have giveup: "\<forall>err. unreachable 2 = Inl err \<longrightarrow>
      ParseCard_loop catalog unreachable emptyCard 2
        = (Inl (HTTPRequestFailed 3 err), [RateLimitWait, Get (cardURL emptyCard)])"
    by simp
  from giveup u2 have b2: "ParseCard_loop catalog unreachable emptyCard 2
        = (Inl (HTTPRequestFailed 3 ?down), [RateLimitWait, Get (cardURL emptyCard)])"
    by simp
  have "Suc 0 < 2 \<and> unreachable (Suc 0) = Inl ?down \<longrightarrow>
      ParseCard_loop catalog unreachable emptyCard (Suc 0) =
        after [RateLimitWait, Get (cardURL emptyCard), Sleep (100 * Millisecond * 2 ^ Suc 0)]
          (ParseCard_loop catalog unreachable emptyCard (Suc 0 + 1))"
    using retry by blast
  with u1 have b1: "ParseCard_loop catalog unreachable emptyCard (Suc 0) =
        after [RateLimitWait, Get (cardURL emptyCard), Sleep (200 * Millisecond)]
          (ParseCard_loop catalog unreachable emptyCard 2)"
    by (simp add: numeral_2_eq_2)
  have "(0::nat) < 2 \<and> unreachable 0 = Inl ?down \<longrightarrow>
      ParseCard_loop catalog unreachable emptyCard 0 =
        after [RateLimitWait, Get (cardURL emptyCard), Sleep (100 * Millisecond * 2 ^ 0)]
          (ParseCard_loop catalog unreachable emptyCard (0 + 1))"
    using retry by blast
  with u0 have b0: "ParseCard_loop catalog unreachable emptyCard 0 =
        after [RateLimitWait, Get (cardURL emptyCard), Sleep (100 * Millisecond)]
          (ParseCard_loop catalog unreachable emptyCard (Suc 0))"
    by simp
  have down: "ParseCard_loop catalog unreachable emptyCard 0 =
     (Inl (HTTPRequestFailed 3 ?down),
      [RateLimitWait, Get (cardURL emptyCard), Sleep (100 * Millisecond),
       RateLimitWait, Get (cardURL emptyCard), Sleep (200 * Millisecond),
       RateLimitWait, Get (cardURL emptyCard)])"
    by (simp add: b0 b1 b2 after_def)
  from r have status: "\<forall>attempt resp. attempt < 3 \<and> serverError attempt = Inr resp \<and>
        StatusCode resp \<noteq> 200 \<and> StatusCode resp \<noteq> 429 \<longrightarrow>
      ParseCard_loop catalog serverError emptyCard attempt
        = (Inl (APIError (StatusCode resp)), [RateLimitWait, Get (cardURL emptyCard)])"
    by simp
  have "(0::nat) < 3 \<and> serverError 0 = Inr ?bad \<and>
        StatusCode ?bad \<noteq> 200 \<and> StatusCode ?bad \<noteq> 429 \<longrightarrow>
      ParseCard_loop catalog serverError emptyCard 0
        = (Inl (APIError (StatusCode ?bad)), [RateLimitWait, Get (cardURL emptyCard)])"
    using status by blast
  with s0 have bad: "ParseCard_loop catalog serverError emptyCard 0
        = (Inl (APIError 500), [RateLimitWait, Get (cardURL emptyCard)])"
    by simp
  let ?u = "''https://api.scryfall.com/cards/inv/64''"
  let ?evs = "[RateLimitWait, Get ?u]"
  let ?opt = "withImageURIs
          \<lparr>Quantity = 1, Name = ''Opt'', SetCode = ''inv'', CollectorNumber = ''64'',
            Layout = ''normal'', ImageURIs = []\<rparr>"
  have pc: "ParseCard catalog serverError deckOpt = (Inl (APIError 500), ?evs)"
    by code_simp
  have shift: "(\<lambda>k. serverError (k + requests ?evs)) = serverError"
    by (rule ext) (simp add: serverError_def)
  note r' = ParseCard_retry_policy [of catalog serverError deckOpt "Inl (APIError 500)" emptyCard]
  from r have "\<forall>err evs. ParseCard catalog serverError deckOpt = (Inl err, evs) \<longrightarrow>
      parseRetry catalog serverError deckOpt 0 (Inr emptyCard) =
        after (evs @ [Sleep (1 * Second)])
          (parseRetry catalog (\<lambda>k. serverError (k + requests evs)) deckOpt 1 (Inl err))"
    by simp
  then have "ParseCard catalog serverError deckOpt = (Inl (APIError 500), ?evs) \<longrightarrow>
      parseRetry catalog serverError deckOpt 0 (Inr emptyCard) =
        after (?evs @ [Sleep (1 * Second)])
          (parseRetry catalog (\<lambda>k. serverError (k + requests ?evs)) deckOpt 1
             (Inl (APIError 500)))"
    by blast
  from this pc have "parseRetry catalog serverError deckOpt 0 (Inr emptyCard) =
        after (?evs @ [Sleep (1 * Second)])
          (parseRetry catalog (\<lambda>k. serverError (k + requests ?evs)) deckOpt 1
             (Inl (APIError 500)))"
    by (rule mp)
  then have h0: "parseRetry catalog serverError deckOpt 0 (Inr emptyCard) =
        after (?evs @ [Sleep (1 * Second)])
          (parseRetry catalog serverError deckOpt 1 (Inl (APIError 500)))"
    unfolding shift .
  from r' have "\<forall>err evs. ParseCard catalog serverError deckOpt = (Inl err, evs) \<longrightarrow>
      parseRetry catalog serverError deckOpt 1 (Inl (APIError 500)) =
        after (evs @ [Sleep (2 * Second)])
          (parseRetry catalog (\<lambda>k. serverError (k + requests evs)) deckOpt 2 (Inl err))"
    by simp
  then have "ParseCard catalog serverError deckOpt = (Inl (APIError 500), ?evs) \<longrightarrow>
      parseRetry catalog serverError deckOpt 1 (Inl (APIError 500)) =
        after (?evs @ [Sleep (2 * Second)])
          (parseRetry catalog (\<lambda>k. serverError (k + requests ?evs)) deckOpt 2
             (Inl (APIError 500)))"
    by blast
  from this pc have "parseRetry catalog serverError deckOpt 1 (Inl (APIError 500)) =
        after (?evs @ [Sleep (2 * Second)])
          (parseRetry catalog (\<lambda>k. serverError (k + requests ?evs)) deckOpt 2
             (Inl (APIError 500)))"
    by (rule mp)
  then have h1: "parseRetry catalog serverError deckOpt 1 (Inl (APIError 500)) =
        after (?evs @ [Sleep (2 * Second)])
          (parseRetry catalog serverError deckOpt 2 (Inl (APIError 500)))"
    unfolding shift .
  from r' have "\<forall>err evs. ParseCard catalog serverError deckOpt = (Inl err, evs) \<longrightarrow>
      parseRetry catalog serverError deckOpt 2 (Inl (APIError 500)) = (Inl err, evs)"
    by simp
  then have "ParseCard catalog serverError deckOpt = (Inl (APIError 500), ?evs) \<longrightarrow>
      parseRetry catalog serverError deckOpt 2 (Inl (APIError 500)) = (Inl (APIError 500), ?evs)"
    by blast
  from this pc have h2: "parseRetry catalog serverError deckOpt 2 (Inl (APIError 500))
      = (Inl (APIError 500), ?evs)"
    by (rule mp)
  have retried: "parseRetry catalog serverError deckOpt 0 (Inr emptyCard)
     = (Inl (APIError 500),
        [RateLimitWait, Get ?u, Sleep (1 * Second),
         RateLimitWait, Get ?u, Sleep (2 * Second),
         RateLimitWait, Get ?u])"
    unfolding h0 h1 h2 by (simp add: after_def)
  have ok: "ParseCard catalog (clientGet catalog 0) deckOpt = (Inr ?opt, ?evs)"
    by code_simp
  note s = ParseCard_retry_policy [of catalog "clientGet catalog 0" deckOpt "Inr emptyCard" emptyCard]
  from s have "\<forall>attempt c' evs. attempt < 3 \<and>
        ParseCard catalog (clientGet catalog 0) deckOpt = (Inr c', evs) \<longrightarrow>
      parseRetry catalog (clientGet catalog 0) deckOpt attempt (Inr emptyCard) = (Inr c', evs)"
    by simp
  then have "(0::nat) < 3 \<and> ParseCard catalog (clientGet catalog 0) deckOpt = (Inr ?opt, ?evs) \<longrightarrow>
      parseRetry catalog (clientGet catalog 0) deckOpt 0 (Inr emptyCard) = (Inr ?opt, ?evs)"
    by blast
  with ok have once: "parseRetry catalog (clientGet catalog 0) deckOpt 0 (Inr emptyCard)
      = (Inr ?opt, ?evs)"
    by simp
  from g0 g1 g2 run u0 u1 u2 down s0 bad pc retried ok once show ?thesis by (intro conjI)
qed


text \<open>
  C3, as stated, fails. Against a catalog that answers 500, \<open>ParseCard\<close> makes one
  request and gives up; the handler's retry then waits 1 s and 2 s, not 100 ms and 200 ms.
  Against a catalog that cannot be reached, the lookup of one line makes 9 requests.
\<close>

theorem lookup_retry_counterexample:
  "ParseCard catalog serverError deckOpt
     = (Inl (APIError 500), [RateLimitWait, Get ''https://api.scryfall.com/cards/inv/64'']) \<and>
   parseRetry catalog serverError deckOpt 0 (Inr emptyCard)
     = (Inl (APIError 500),
        [RateLimitWait, Get ''https://api.scryfall.com/cards/inv/64'', Sleep (1 * Second),
         RateLimitWait, Get ''https://api.scryfall.com/cards/inv/64'', Sleep (2 * Second),
         RateLimitWait, Get ''https://api.scryfall.com/cards/inv/64'']) \<and>
   requests (snd (parseRetry catalog unreachable deckOpt 0 (Inr emptyCard))) = 9 \<and>
   \<not> requests (snd (parseRetry catalog unreachable deckOpt 0 (Inr emptyCard))) \<le> 3"
  by code_simp


subsection \<open>Assembly of the document\<close>

lemma page_uri_addPage: "page_uri (addPage w uri d) = uri"
  by (simp add: addPage_def split: sum.splits)

lemma map_page_uri_addPages:
  "map page_uri (addPages w xs) = map fst (filter (\<lambda>x. \<not> isl (snd x)) xs)"
  by (induction w xs rule: addPages.induct) (simp_all add: page_uri_addPage)

lemma length_fetchAll: "length (fetchAll w uris) = length uris"
  by (simp add: fetchAll_def)

lemma zip_as_map:
  "length xs = length ys \<Longrightarrow> zip xs ys = map (\<lambda>i. (xs ! i, ys ! i)) [0..<length xs]"
  by (rule nth_equalityI) simp_all

lemma fetched_uris:
  assumes "length rs = length uris"
  shows "map fst (filter (\<lambda>x. \<not> isl (snd x)) (zip uris rs))
           = map ((!) uris) (filter (\<lambda>i. \<not> isl (rs ! i)) [0..<length uris])"
proof -
  have "zip uris rs = map (\<lambda>i. (uris ! i, rs ! i)) [0..<length uris]"
    using assms by (simp add: zip_as_map)
  then show ?thesis
    by (simp add: filter_map comp_def)
qed

lemma GeneratePDF_eq:
  "GeneratePDF w cards =
     (case WriteTo w (assembled w cards) of
        Some err \<Rightarrow> Inl err
      | None \<Rightarrow> Inr (assembled w cards))"
  unfolding GeneratePDF_def assembled_def Let_def
  by (auto split: option.splits simp: fetchAll_def)

lemma assembled_uris:
  "map page_uri (assembled w cards) =
     map ((!) (allURIs w cards))
       (filter (\<lambda>i. \<not> isl (fetchAll w (allURIs w cards) ! i)) [0..<length (allURIs w cards)])"
  by (simp add: assembled_def map_page_uri_addPages fetched_uris length_fetchAll)

lemma length_assembled:
  "length (assembled w cards)
     = length (filter (\<lambda>r. \<not> isl r) (fetchAll w (allURIs w cards)))"
proof -
  have "length (assembled w cards) = length (map page_uri (assembled w cards))"
    by simp
  also have "\<dots> = length (filter (\<lambda>x. \<not> isl (snd x))
        (zip (allURIs w cards) (fetchAll w (allURIs w cards))))"
    by (simp add: assembled_def map_page_uri_addPages)
  also have "\<dots> = length (filter (\<lambda>r. \<not> isl r) (map snd
        (zip (allURIs w cards) (fetchAll w (allURIs w cards)))))"
    by (simp add: filter_map comp_def)
  also have "\<dots> = length (filter (\<lambda>r. \<not> isl r) (fetchAll w (allURIs w cards)))"
    by (simp add: length_fetchAll)
  finally show ?thesis .
qed

lemma length_copyURIs:
  assumes "rangeVisitsAll w"
  shows "length (copyURIs w i c q) = length (ImageURIs c)"
proof -
  from assms have "mset (rangeOrder w i q (ImageURIs c)) = mset (ImageURIs c)"
    by (simp add: rangeVisitsAll_def)
  then have "length (rangeOrder w i q (ImageURIs c)) = length (ImageURIs c)"
    by (rule mset_eq_length)
  then show ?thesis
    by (simp add: copyURIs_def)
qed

lemma length_cardURIs:
  assumes "rangeVisitsAll w"
  shows "length (cardURIs w i c) = nat (Quantity c) * length (ImageURIs c)"
proof -
  have "map (length \<circ> copyURIs w i c) [0..<nat (Quantity c)]
          = replicate (nat (Quantity c)) (length (ImageURIs c))"
    by (rule nth_equalityI) (simp_all add: length_copyURIs [OF assms])
  then show ?thesis
    by (simp add: cardURIs_def length_concat sum_list_replicate)
qed

lemma length_allURIs:
  assumes "rangeVisitsAll w"
  shows "length (allURIs w cards) = (\<Sum>c\<leftarrow>cards. nat (Quantity c) * length (ImageURIs c))"
proof -
  have "map (\<lambda>i. length (cardURIs w i (cards ! i))) [0..<length cards]
          = map (\<lambda>c. nat (Quantity c) * length (ImageURIs c)) cards"
    by (rule nth_equalityI) (simp_all add: length_cardURIs [OF assms])
  then show ?thesis
    by (simp add: allURIs_def length_concat comp_def)
qed

lemma handlerOps_resolved:
  assumes "nonEmptyLines d \<noteq> []"
      and "errorsOf (received w (nonEmptyLines d)) = []"
  shows "handlerOps w d =
     (case WriteTo w (assembled w (cardsOf (received w (nonEmptyLines d)))) of
        Some err \<Rightarrow>
          ([SetStatus ''parse'', SetStatus ''fetch'', SetStatus ''generate'',
            SetError (PDFGenerationFailed err)], Some err)
      | None \<Rightarrow>
          ([SetStatus ''parse'', SetStatus ''fetch'', SetStatus ''generate'',
            SetPDF (assembled w (cardsOf (received w (nonEmptyLines d)))),
            SetStatus ''complete''], None))"
  using assms
  by (simp add: handlerOps_def Let_def GeneratePDF_eq split: option.splits)

lemma sum_list_ones:
  "(\<forall>x \<in> set xs. f x = (1::nat)) \<Longrightarrow> sum_list (map f xs) = length xs"
  by (induction xs) simp_all

lemma three_cards_one_failure:
  assumes range: "rangeVisitsAll w"
      and three: "length cards = 3"
      and single: "\<forall>c \<in> set cards. Quantity c = 1 \<and> length (ImageURIs c) = 1"
      and one: "length (filter isl (fetchAll w (allURIs w cards))) = 1"
  shows "length (assembled w cards) = 2"
proof -
  from single have "\<forall>c \<in> set cards. nat (Quantity c) * length (ImageURIs c) = 1"
    by simp
  then have "(\<Sum>c\<leftarrow>cards. nat (Quantity c) * length (ImageURIs c)) = length cards"
    by (rule sum_list_ones)
  with three have "length (fetchAll w (allURIs w cards)) = 3"
    by (simp add: length_fetchAll length_allURIs [OF range])
  moreover have "length (filter isl (fetchAll w (allURIs w cards)))
        + length (filter (\<lambda>r. \<not> isl r) (fetchAll w (allURIs w cards)))
      = length (fetchAll w (allURIs w cards))"
    by (rule sum_length_filter_compl)
  ultimately show ?thesis
    using one by (simp add: length_assembled)
qed

lemma FetchImageWithRetry_loop_fails:
  "isl (fst (FetchImageWithRetry_loop get uri retries attempt lastErr)) \<longleftrightarrow>
     (\<forall>k. attempt \<le> k \<and> k \<le> retries \<longrightarrow> attemptFails (get k))"
proof (induction get uri retries attempt lastErr rule: FetchImageWithRetry_loop.induct)
  case (1 get uri retries attempt lastErr)
  show ?case
  proof (cases "attempt \<le> retries")
    case False
    then show ?thesis
      by (subst FetchImageWithRetry_loop.simps) auto
  next
    case True
    have split: "(\<forall>k. attempt \<le> k \<and> k \<le> retries \<longrightarrow> attemptFails (get k)) \<longleftrightarrow>
        attemptFails (get attempt) \<and>
        (\<forall>k. attempt + 1 \<le> k \<and> k \<le> retries \<longrightarrow> attemptFails (get k))"
    proof (intro iffI conjI allI impI)
      assume h: "\<forall>k. attempt \<le> k \<and> k \<le> retries \<longrightarrow> attemptFails (get k)"
      from h True show "attemptFails (get attempt)" by simp
      fix k assume "attempt + 1 \<le> k \<and> k \<le> retries"
      with h show "attemptFails (get k)" by simp
    next
      fix k
      assume h: "attemptFails (get attempt) \<and>
          (\<forall>k. attempt + 1 \<le> k \<and> k \<le> retries \<longrightarrow> attemptFails (get k))"
        and k: "attempt \<le> k \<and> k \<le> retries"
      show "attemptFails (get k)"
      proof (cases "k = attempt")
        case True
        with h show ?thesis by simp
      next
        case False
        with k have "attempt + 1 \<le> k \<and> k \<le> retries" by simp
        with h show ?thesis by blast
      qed
    qed
    show ?thesis
    proof (cases "get attempt")
      case (Inl err)
      with True "1.IH"(1) [OF True Inl] show ?thesis
        unfolding split
        by (subst FetchImageWithRetry_loop.simps) (simp add: fst_after attemptFails_def)
    next
      case (Inr resp)
      show ?thesis
      proof (cases "StatusCode resp \<noteq> StatusOK")
        case bad: True
        with True Inr "1.IH"(2) [OF True Inr bad] show ?thesis
          unfolding split
          by (subst FetchImageWithRetry_loop.simps) (simp add: fst_after attemptFails_def)
      next
        case ok: False
        show ?thesis
        proof (cases "Body resp")
          case body: (Inl err)
          with True Inr ok "1.IH"(3) [OF True Inr ok body] show ?thesis
            unfolding split
            by (subst FetchImageWithRetry_loop.simps) (simp add: fst_after attemptFails_def)
        next
          case body: (Inr b)
          with True Inr ok show ?thesis
            unfolding split
            by (subst FetchImageWithRetry_loop.simps) (simp add: fst_after attemptFails_def)
        qed
      qed
    qed
  qed
qed

lemma fetchAll_fails:
  assumes "i < length uris"
  shows "isl (fetchAll w uris ! i) \<longleftrightarrow> (\<forall>k\<le>2. attemptFails (httpGet w i k))"
  using assms FetchImageWithRetry_loop_fails [of "httpGet w i" "uris ! i" 2 0 None]
  by (simp add: fetchAll_def FetchImageWithRetry_def)


text \<open>
  C5. The fetch of an image fails exactly when all three of its attempts fail. When every
  line of a decklist with at least one non-empty line resolves and the document is written,
  the job ends in status \<open>complete\<close> with no error set, whatever image fetches failed;
  the document holds, in order, a page for exactly the indices whose fetch succeeded. For
  three cards of quantity 1 with one face each and exactly one failed fetch it has 2 pages.
\<close>

theorem partial_image_failure:
  assumes job: "GetJob jobs (JobID dt) = Some job"
      and lines: "nonEmptyLines (Decklist dt) \<noteq> []"
      and resolved: "errorsOf (received w (nonEmptyLines (Decklist dt))) = []"
      and cards: "cards = cardsOf (received w (nonEmptyLines (Decklist dt)))"
      and written: "WriteTo w (assembled w cards) = None"
  shows "(\<forall>i < length (allURIs w cards).
            isl (fetchAll w (allURIs w cards) ! i) \<longleftrightarrow> (\<forall>k\<le>2. attemptFails (httpGet w i k))) \<and>
         (\<exists>job'. ProcessDecklistHandler w (Inr dt) jobs = (Store (JobID dt) job' jobs, None) \<and>
           Status job' = ''complete'' \<and> Error job' = Error job \<and>
           PDF job' = Some (assembled w cards) \<and>
           map page_uri (assembled w cards) =
             map ((!) (allURIs w cards))
               (filter (\<lambda>i. \<not> isl (fetchAll w (allURIs w cards) ! i))
                  [0..<length (allURIs w cards)]) \<and>
           (rangeVisitsAll w \<and> length cards = 3 \<and>
            (\<forall>c \<in> set cards. Quantity c = 1 \<and> length (ImageURIs c) = 1) \<and>
            length (filter isl (fetchAll w (allURIs w cards))) = 1 \<longrightarrow>
              length (assembled w cards) = 2))"
proof -
  let ?job' = "fold perform
      [SetStatus ''parse'', SetStatus ''fetch'', SetStatus ''generate'',
       SetPDF (assembled w cards), SetStatus ''complete''] job"
  have ops: "handlerOps w (Decklist dt) =
      ([SetStatus ''parse'', SetStatus ''fetch'', SetStatus ''generate'',
        SetPDF (assembled w cards), SetStatus ''complete''], None)"
    using handlerOps_resolved [OF lines resolved] written cards by simp
  have run: "ProcessDecklistHandler w (Inr dt) jobs = (Store (JobID dt) ?job' jobs, None)"
    by (simp add: ProcessDecklistHandler_def job ops)
  have fields: "Status ?job' = ''complete'' \<and> Error ?job' = Error job \<and>
      PDF ?job' = Some (assembled w cards)"
    by (simp add: setStatus_def setPDF_def)
  have three: "rangeVisitsAll w \<and> length cards = 3 \<and>
            (\<forall>c \<in> set cards. Quantity c = 1 \<and> length (ImageURIs c) = 1) \<and>
            length (filter isl (fetchAll w (allURIs w cards))) = 1 \<longrightarrow>
              length (assembled w cards) = 2"
    using three_cards_one_failure [of w cards] by blast
  have fails: "\<forall>i < length (allURIs w cards).
      isl (fetchAll w (allURIs w cards) ! i) \<longleftrightarrow> (\<forall>k\<le>2. attemptFails (httpGet w i k))"
    using fetchAll_fails by blast
  from run fields assembled_uris [of w cards] three
  have "\<exists>job'. ProcessDecklistHandler w (Inr dt) jobs = (Store (JobID dt) job' jobs, None) \<and>
           Status job' = ''complete'' \<and> Error job' = Error job \<and>
           PDF job' = Some (assembled w cards) \<and>
           map page_uri (assembled w cards) =
             map ((!) (allURIs w cards))
               (filter (\<lambda>i. \<not> isl (fetchAll w (allURIs w cards) ! i))
                  [0..<length (allURIs w cards)]) \<and>
           (rangeVisitsAll w \<and> length cards = 3 \<and>
            (\<forall>c \<in> set cards. Quantity c = 1 \<and> length (ImageURIs c) = 1) \<and>
            length (filter isl (fetchAll w (allURIs w cards))) = 1 \<longrightarrow>
              length (assembled w cards) = 2)"
    by (intro exI [of _ ?job']) simp
  with fails show ?thesis by (rule conjI)
qed

lemma deck3_lines:
  "nonEmptyLines deck3
     = [''1 Lightning Bolt (lea) 161'', ''1 Counterspell (ice) 64'', ''1 Opt (inv) 64'']"
  by code_simp

lemma deck3_received:
  "received secondImageDown (nonEmptyLines deck3) =
     [Inr \<lparr>Quantity = 1, Name = ''Lightning Bolt'', SetCode = ''lea'',
            CollectorNumber = ''161'', Layout = ''normal'',
            ImageURIs =
              [(''front'', ''https://api.scryfall.com/cards/lea/161?format=image&version=png'')]\<rparr>,
      Inr \<lparr>Quantity = 1, Name = ''Counterspell'', SetCode = ''ice'',
            CollectorNumber = ''64'', Layout = ''normal'',
            ImageURIs =
              [(''front'', ''https://api.scryfall.com/cards/ice/64?format=image&version=png'')]\<rparr>,
      Inr \<lparr>Quantity = 1, Name = ''Opt'', SetCode = ''inv'',
            CollectorNumber = ''64'', Layout = ''normal'',
            ImageURIs =
              [(''front'', ''https://api.scryfall.com/cards/inv/64?format=image&version=png'')]\<rparr>]"
  by code_simp

lemma deck3_fetched:
  "fetchAll secondImageDown
     (allURIs secondImageDown (cardsOf (received secondImageDown (nonEmptyLines deck3))))
     = [Inr ''png'', Inl (FetchFailed 3 (Some (HTTPError 404))), Inr ''png'']"
  by code_simp

theorem partial_image_failure_witness:
  "GetJob oneJob ''j0'' = Some (NewGrimoireJob ''j0'' 0) \<and>
   nonEmptyLines deck3 \<noteq> [] \<and>
   errorsOf (received secondImageDown (nonEmptyLines deck3)) = [] \<and>
   WriteTo secondImageDown
     (assembled secondImageDown (cardsOf (received secondImageDown (nonEmptyLines deck3)))) = None \<and>
   rangeVisitsAll secondImageDown \<and>
   length (cardsOf (received secondImageDown (nonEmptyLines deck3))) = 3 \<and>
   length (filter isl (fetchAll secondImageDown (allURIs secondImageDown
     (cardsOf (received secondImageDown (nonEmptyLines deck3)))))) = 1 \<and>
   (\<exists>job'. ProcessDecklistHandler secondImageDown (Inr \<lparr>JobID = ''j0'', Decklist = deck3\<rparr>) oneJob
              = (Store ''j0'' job' oneJob, None) \<and>
      Status job' = ''complete'' \<and> Error job' = None \<and>
      PDF job' = Some (assembled secondImageDown
        (cardsOf (received secondImageDown (nonEmptyLines deck3)))) \<and>
      length (assembled secondImageDown
        (cardsOf (received secondImageDown (nonEmptyLines deck3)))) = 2)"
proof -
  let ?dt = "\<lparr>JobID = ''j0'', Decklist = deck3\<rparr>"
  let ?cards = "cardsOf (received secondImageDown (nonEmptyLines deck3))"
  have job: "GetJob oneJob (JobID ?dt) = Some (NewGrimoireJob ''j0'' 0)"
    by (simp add: oneJob_def GetJob_def)
  have lines: "nonEmptyLines (Decklist ?dt) \<noteq> []"
    by (simp add: deck3_lines)
  have resolved: "errorsOf (received secondImageDown (nonEmptyLines (Decklist ?dt))) = []"
    by (simp add: deck3_received errorsOf_def)
  have cards: "?cards = cardsOf (received secondImageDown (nonEmptyLines (Decklist ?dt)))"
    by simp
  have written: "WriteTo secondImageDown (assembled secondImageDown ?cards) = None"
    by (simp add: secondImageDown_def catalog_def)
  have range: "rangeVisitsAll secondImageDown"
    by (simp add: rangeVisitsAll_def secondImageDown_def catalog_def)
  have three: "length ?cards = 3"
    by (simp add: deck3_received cardsOf_def)
  have single: "\<forall>c \<in> set ?cards. Quantity c = 1 \<and> length (ImageURIs c) = 1"
    by (simp add: deck3_received cardsOf_def)
  have one: "length (filter isl (fetchAll secondImageDown (allURIs secondImageDown ?cards))) = 1"
    by (simp add: deck3_fetched)
  from partial_image_failure [OF job lines resolved cards written]
  obtain job' where run: "ProcessDecklistHandler secondImageDown (Inr ?dt) oneJob
        = (Store (JobID ?dt) job' oneJob, None)"
    and st: "Status job' = ''complete''"
    and er: "Error job' = Error (NewGrimoireJob ''j0'' 0)"
    and pdf: "PDF job' = Some (assembled secondImageDown ?cards)"
    and inst: "rangeVisitsAll secondImageDown \<and> length ?cards = 3 \<and>
            (\<forall>c \<in> set ?cards. Quantity c = 1 \<and> length (ImageURIs c) = 1) \<and>
            length (filter isl (fetchAll secondImageDown (allURIs secondImageDown ?cards))) = 1 \<longrightarrow>
              length (assembled secondImageDown ?cards) = 2"
    by blast
  from range three single one have "rangeVisitsAll secondImageDown \<and> length ?cards = 3 \<and>
            (\<forall>c \<in> set ?cards. Quantity c = 1 \<and> length (ImageURIs c) = 1) \<and>
            length (filter isl (fetchAll secondImageDown (allURIs secondImageDown ?cards))) = 1"
    by (intro conjI)
  with inst have two: "length (assembled secondImageDown ?cards) = 2"
    by (rule mp)
  from er have er': "Error job' = None"
    by (simp add: NewGrimoireJob_def)
  from run have run': "ProcessDecklistHandler secondImageDown (Inr ?dt) oneJob
        = (Store ''j0'' job' oneJob, None)"
    by simp
  from run' st er' pdf two
  have ex: "\<exists>job'. ProcessDecklistHandler secondImageDown (Inr ?dt) oneJob
              = (Store ''j0'' job' oneJob, None) \<and>
      Status job' = ''complete'' \<and> Error job' = None \<and>
      PDF job' = Some (assembled secondImageDown ?cards) \<and>
      length (assembled secondImageDown ?cards) = 2"
    by (intro exI [of _ job'] conjI)
  from job have job0: "GetJob oneJob ''j0'' = Some (NewGrimoireJob ''j0'' 0)" by simp
  from lines have lines0: "nonEmptyLines deck3 \<noteq> []" by simp
  from resolved have resolved0: "errorsOf (received secondImageDown (nonEmptyLines deck3)) = []"
    by simp
  from job0 lines0 resolved0 written range three one ex show ?thesis
    by (intro conjI)
qed


lemma faces_withImageURIs:
  "length (ImageURIs (withImageURIs c)) = faceCount (withImageURIs c)"
  by (simp add: withImageURIs_def faceCount_def)

lemma ParseCard_faces:
  assumes "fst (ParseCard w get line) = Inr c"
  shows "length (ImageURIs c) = faceCount c"
proof (cases "parseLine w line")
  case (Inl err)
  with assms show ?thesis by (simp add: ParseCard_def)
next
  case (Inr c0)
  obtain r evs where loop: "ParseCard_loop w get c0 0 = (r, evs)"
    by (cases "ParseCard_loop w get c0 0")
  with assms Inr obtain c' where "c = withImageURIs c'"
    by (cases r) (auto simp: ParseCard_def)
  then show ?thesis by (simp add: faces_withImageURIs)
qed

lemma parseRetry_faces:
  "fst (parseRetry w get line attempt prev) = Inr c \<Longrightarrow> attempt < 3 \<or> isl prev \<Longrightarrow>
   length (ImageURIs c) = faceCount c"
proof (induction w get line attempt prev rule: parseRetry.induct)
  case (1 w get line attempt prev)
  show ?case
  proof (cases "attempt < 3")
    case False
    with "1.prems" show ?thesis
      by (subst (asm) parseRetry.simps) auto
  next
    case True
    obtain r evs where pc: "ParseCard w get line = (r, evs)"
      by (cases "ParseCard w get line")
    show ?thesis
    proof (cases r)
      case (Inr c')
      with True pc "1.prems"(1) have "c' = c"
        by (subst (asm) parseRetry.simps) simp
      with pc Inr show ?thesis
        using ParseCard_faces [of w get line c] by simp
    next
      case (Inl err)
      with True pc "1.prems"(1)
      have "fst (parseRetry w (\<lambda>k. get (k + requests evs)) line (attempt + 1) (Inl err)) = Inr c"
        by (subst (asm) parseRetry.simps) (simp add: fst_after)
      from "1.IH" [OF True pc [symmetric, unfolded Inl] refl this] show ?thesis
        by simp
    qed
  qed
qed

lemma lineResult_faces:
  assumes "lineResult w i line = Inr c"
  shows "length (ImageURIs c) = faceCount c"
proof -
  from assms have "fst (parseRetry w (clientGet w i) line 0 (Inr emptyCard)) = Inr c"
    by (simp add: lineResult_def split: sum.splits)
  then show ?thesis
    by (rule parseRetry_faces) simp
qed

lemma received_all:
  assumes sched: "everyLineRuns w (length lines)"
      and resolved: "\<forall>i < length lines. lineResult w i (lines ! i) = Inr (resolved i)"
  shows "received w lines = map (\<lambda>i. Inr (resolved i)) (semaphoreOrder w (length lines))"
proof -
  let ?order = "semaphoreOrder w (length lines)"
  from sched have "set ?order = set [0..<length lines]"
    unfolding everyLineRuns_def by (rule mset_eq_setD)
  then have inrange: "\<forall>i \<in> set ?order. i < length lines"
    by simp
  then have "filter (\<lambda>i. i < length lines) ?order = ?order"
    by simp
  with inrange resolved show ?thesis
    by (simp add: received_def)
qed

lemma cardsOf_Inr: "cardsOf (map (\<lambda>i. Inr (f i)) is) = map f is"
  by (induction "is") (simp_all add: cardsOf_def)

lemma errorsOf_Inr: "errorsOf (map (\<lambda>i. Inr (f i)) is) = []"
  by (induction "is") (simp_all add: errorsOf_def)

lemma sum_list_permuted:
  fixes f :: "nat \<Rightarrow> nat"
  assumes "mset xs = mset ys"
  shows "sum_list (map f xs) = sum_list (map f ys)"
proof -
  have "sum_list (map f xs) = sum_mset (image_mset f (mset xs))"
    by (simp add: sum_mset_sum_list [symmetric])
  also have "\<dots> = sum_mset (image_mset f (mset ys))"
    by (simp add: assms)
  also have "\<dots> = sum_list (map f ys)"
    by (simp add: sum_mset_sum_list [symmetric])
  finally show ?thesis .
qed

lemma GeneratePDF_page_count:
  assumes range: "rangeVisitsAll w"
      and faces: "\<forall>c \<in> set cards. length (ImageURIs c) = faceCount c"
      and fetched: "list_all (\<lambda>r. \<not> isl r) (fetchAll w (allURIs w cards))"
  shows "length (assembled w cards) = (\<Sum>c\<leftarrow>cards. nat (Quantity c) * faceCount c)"
proof -
  have "length (assembled w cards) = length (fetchAll w (allURIs w cards))"
    using fetched by (simp add: length_assembled list_all_iff)
  also have "\<dots> = (\<Sum>c\<leftarrow>cards. nat (Quantity c) * length (ImageURIs c))"
    by (simp add: length_fetchAll length_allURIs [OF range])
  also have "\<dots> = (\<Sum>c\<leftarrow>cards. nat (Quantity c) * faceCount c)"
    using faces by (intro arg_cong [where f = sum_list] map_cong) simp_all
  finally show ?thesis .
qed

text \<open>
  C6. When every non-empty line of a decklist resolves, every image is fetched and the
  document is written, the job ends \<open>complete\<close> with a document whose number of pages
  is the sum, over the lines, of the card's quantity times its face count: 2 for the
  layouts \<open>transform\<close> and \<open>modal_dfc\<close>, 1 otherwise. This holds for every order in
  which the lines resolve and every order in which the faces are visited.
\<close>

theorem page_count:
  assumes job: "GetJob jobs (JobID dt) = Some job"
      and lines: "nonEmptyLines (Decklist dt) \<noteq> []"
      and sched: "everyLineRuns w (length (nonEmptyLines (Decklist dt)))"
      and range: "rangeVisitsAll w"
      and resolved: "\<forall>i < length (nonEmptyLines (Decklist dt)).
          lineResult w i (nonEmptyLines (Decklist dt) ! i) = Inr (resolved i)"
      and fetched: "list_all (\<lambda>r. \<not> isl r)
          (fetchAll w (allURIs w (cardsOf (received w (nonEmptyLines (Decklist dt))))))"
      and written: "WriteTo w (assembled w (cardsOf (received w (nonEmptyLines (Decklist dt))))) = None"
  shows "\<exists>job' pages.
           ProcessDecklistHandler w (Inr dt) jobs = (Store (JobID dt) job' jobs, None) \<and>
           Status job' = ''complete'' \<and> PDF job' = Some pages \<and>
           length pages =
             (\<Sum>i\<leftarrow>[0..<length (nonEmptyLines (Decklist dt))].
                nat (Quantity (resolved i)) * faceCount (resolved i))"
proof -
  let ?lines = "nonEmptyLines (Decklist dt)"
  let ?cards = "cardsOf (received w ?lines)"
  let ?job' = "fold perform
      [SetStatus ''parse'', SetStatus ''fetch'', SetStatus ''generate'',
       SetPDF (assembled w ?cards), SetStatus ''complete''] job"
  note rec = received_all [OF sched resolved]
  have cards: "?cards = map resolved (semaphoreOrder w (length ?lines))"
    by (simp add: rec cardsOf_Inr)
  have noerr: "errorsOf (received w ?lines) = []"
    by (simp add: rec errorsOf_Inr)
  have faces: "\<forall>c \<in> set ?cards. length (ImageURIs c) = faceCount c"
  proof
    fix c assume "c \<in> set ?cards"
    then obtain i where i: "i \<in> set (semaphoreOrder w (length ?lines))" and c: "c = resolved i"
      unfolding cards by auto
    from sched have "set (semaphoreOrder w (length ?lines)) = set [0..<length ?lines]"
      unfolding everyLineRuns_def by (rule mset_eq_setD)
    with i have "i < length ?lines" by simp
    with resolved c have "lineResult w i (?lines ! i) = Inr c" by simp
    then show "length (ImageURIs c) = faceCount c" by (rule lineResult_faces)
  qed
  have "length (assembled w ?cards) = (\<Sum>c\<leftarrow>?cards. nat (Quantity c) * faceCount c)"
    using range faces fetched by (rule GeneratePDF_page_count)
  also have "\<dots> = sum_list (map (\<lambda>i. nat (Quantity (resolved i)) * faceCount (resolved i))
      (semaphoreOrder w (length ?lines)))"
    by (simp add: cards comp_def)
  also have "\<dots> = (\<Sum>i\<leftarrow>[0..<length ?lines].
      nat (Quantity (resolved i)) * faceCount (resolved i))"
    using sched unfolding everyLineRuns_def by (rule sum_list_permuted)
  finally have count: "length (assembled w ?cards) =
      (\<Sum>i\<leftarrow>[0..<length ?lines]. nat (Quantity (resolved i)) * faceCount (resolved i))" .
  have ops: "handlerOps w (Decklist dt) =
      ([SetStatus ''parse'', SetStatus ''fetch'', SetStatus ''generate'',
        SetPDF (assembled w ?cards), SetStatus ''complete''], None)"
    using handlerOps_resolved [OF lines noerr] written by simp
  have run: "ProcessDecklistHandler w (Inr dt) jobs = (Store (JobID dt) ?job' jobs, None)"
    by (simp add: ProcessDecklistHandler_def job ops)
  have fields: "Status ?job' = ''complete'' \<and> PDF ?job' = Some (assembled w ?cards)"
    by (simp add: setStatus_def setPDF_def)
  from run fields count show ?thesis
    by (intro exI [of _ ?job'] exI [of _ "assembled w ?cards"]) simp
qed


lemma deckPlaysets_lines:
  "nonEmptyLines deckPlaysets = [''4 Lightning Bolt (lea) 161'', ''2 Delver of Secrets (isd) 51'']"
  by code_simp

lemma deckPlaysets_bolt:
  "lineResult lastLineFirst 0 ''4 Lightning Bolt (lea) 161'' = Inr (withImageURIs bolt)"
  by code_simp

lemma deckPlaysets_delver:
  "lineResult lastLineFirst (Suc 0) ''2 Delver of Secrets (isd) 51'' = Inr (withImageURIs delver)"
  by code_simp

lemma deckPlaysets_fetched:
  "list_all (\<lambda>r. \<not> isl r)
     (fetchAll lastLineFirst (allURIs lastLineFirst
        (cardsOf (received lastLineFirst (nonEmptyLines deckPlaysets)))))"
  by code_simp

theorem page_count_witness:
  "GetJob oneJob ''j0'' = Some (NewGrimoireJob ''j0'' 0) \<and>
   nonEmptyLines deckPlaysets \<noteq> [] \<and>
   everyLineRuns lastLineFirst (length (nonEmptyLines deckPlaysets)) \<and>
   rangeVisitsAll lastLineFirst \<and>
   lineResult lastLineFirst 0 (nonEmptyLines deckPlaysets ! 0) = Inr (withImageURIs bolt) \<and>
   lineResult lastLineFirst (Suc 0) (nonEmptyLines deckPlaysets ! Suc 0)
     = Inr (withImageURIs delver) \<and>
   list_all (\<lambda>r. \<not> isl r)
     (fetchAll lastLineFirst (allURIs lastLineFirst
        (cardsOf (received lastLineFirst (nonEmptyLines deckPlaysets))))) \<and>
   WriteTo lastLineFirst (assembled lastLineFirst
        (cardsOf (received lastLineFirst (nonEmptyLines deckPlaysets)))) = None \<and>
   (\<exists>job' pages.
      ProcessDecklistHandler lastLineFirst (Inr \<lparr>JobID = ''j0'', Decklist = deckPlaysets\<rparr>) oneJob
        = (Store ''j0'' job' oneJob, None) \<and>
      Status job' = ''complete'' \<and> PDF job' = Some pages \<and> length pages = 8)"
proof -
  let ?dt = "\<lparr>JobID = ''j0'', Decklist = deckPlaysets\<rparr>"
  let ?w = lastLineFirst
  let ?resolved = "\<lambda>i. [withImageURIs bolt, withImageURIs delver] ! i"
  have job0: "GetJob oneJob ''j0'' = Some (NewGrimoireJob ''j0'' 0)"
    by (simp add: oneJob_def GetJob_def)
  then have job: "GetJob oneJob (JobID ?dt) = Some (NewGrimoireJob ''j0'' 0)"
    by simp
  have lines0: "nonEmptyLines deckPlaysets \<noteq> []"
    by (simp add: deckPlaysets_lines)
  then have lines: "nonEmptyLines (Decklist ?dt) \<noteq> []"
    by simp
  have sched0: "everyLineRuns ?w (length (nonEmptyLines deckPlaysets))"
    by (simp add: everyLineRuns_def deckPlaysets_lines lastLineFirst_def upt_rec)
  then have sched: "everyLineRuns ?w (length (nonEmptyLines (Decklist ?dt)))"
    by simp
  have range: "rangeVisitsAll ?w"
    by (simp add: rangeVisitsAll_def lastLineFirst_def catalog_def)
  have r0: "lineResult ?w 0 (nonEmptyLines deckPlaysets ! 0) = Inr (withImageURIs bolt)"
    by (simp add: deckPlaysets_lines deckPlaysets_bolt)
  have r1: "lineResult ?w (Suc 0) (nonEmptyLines deckPlaysets ! Suc 0) = Inr (withImageURIs delver)"
    by (simp add: deckPlaysets_lines deckPlaysets_delver)
  have resolved: "\<forall>i < length (nonEmptyLines (Decklist ?dt)).
      lineResult ?w i (nonEmptyLines (Decklist ?dt) ! i) = Inr (?resolved i)"
    using r0 r1 by (simp add: deckPlaysets_lines less_Suc_eq numeral_2_eq_2)
  note fetched0 = deckPlaysets_fetched
  then have fetched: "list_all (\<lambda>r. \<not> isl r)
     (fetchAll ?w (allURIs ?w (cardsOf (received ?w (nonEmptyLines (Decklist ?dt))))))"
    by simp
  have written0: "WriteTo ?w (assembled ?w (cardsOf (received ?w (nonEmptyLines deckPlaysets)))) = None"
    by (simp add: lastLineFirst_def catalog_def)
  then have written: "WriteTo ?w (assembled ?w (cardsOf (received ?w (nonEmptyLines (Decklist ?dt))))) = None"
    by simp
  have total: "(\<Sum>i\<leftarrow>[0..<length (nonEmptyLines (Decklist ?dt))].
      nat (Quantity (?resolved i)) * faceCount (?resolved i)) = 8"
    by (simp add: deckPlaysets_lines upt_rec bolt_def delver_def withImageURIs_def faceCount_def)
  from page_count [OF job lines sched range resolved fetched written]
  have "\<exists>job' pages.
      ProcessDecklistHandler ?w (Inr ?dt) oneJob = (Store (JobID ?dt) job' oneJob, None) \<and>
      Status job' = ''complete'' \<and> PDF job' = Some pages \<and>
      length pages = (\<Sum>i\<leftarrow>[0..<length (nonEmptyLines (Decklist ?dt))].
         nat (Quantity (?resolved i)) * faceCount (?resolved i))" .
  then have ex: "\<exists>job' pages.
      ProcessDecklistHandler ?w (Inr ?dt) oneJob = (Store ''j0'' job' oneJob, None) \<and>
      Status job' = ''complete'' \<and> PDF job' = Some pages \<and> length pages = 8"
    unfolding total by simp
  from job0 lines0 sched0 range r0 r1 fetched0 written0 ex show ?thesis
    by (intro conjI)
qed

lemma addPage_unconverted:
  assumes "(\<exists>err. convertTo8Bit w imageData = Inl err) \<or>
           (\<exists>converted err. convertTo8Bit w imageData = Inr converted \<and>
              ImageHolderByReader w converted = Inl err)"
  shows "addPage w uri imageData = \<lparr>page_uri = uri, page_image = None\<rparr>"
  using assms by (auto simp: addPage_def)

text \<open>
  C10, as the code has it. The page is added before the image is converted: when the
  conversion or the image holder fails, the page stays in the document without an image
  and the loop goes on. The number of pages is the number of fetched images, whatever the
  conversions do. \<open>GeneratePDF\<close> fails only when \<open>WriteTo\<close> does, and once all lines
  are resolved the job ends \<open>complete\<close> unless \<open>WriteTo\<close> fails.
\<close>

theorem conversion_failure_keeps_page:
  "((\<exists>err. convertTo8Bit w imageData = Inl err) \<or>
    (\<exists>converted err. convertTo8Bit w imageData = Inr converted \<and>
       ImageHolderByReader w converted = Inl err) \<longrightarrow>
      addPages w ((uri, Inr imageData) # rest)
        = \<lparr>page_uri = uri, page_image = None\<rparr> # addPages w rest) \<and>
   length (assembled w cards)
     = length (filter (\<lambda>r. \<not> isl r) (fetchAll w (allURIs w cards))) \<and>
   GeneratePDF w cards =
     (case WriteTo w (assembled w cards) of
        Some err \<Rightarrow> Inl err
      | None \<Rightarrow> Inr (assembled w cards)) \<and>
   (nonEmptyLines d \<noteq> [] \<and> errorsOf (received w (nonEmptyLines d)) = [] \<longrightarrow>
      handlerOps w d =
        (case WriteTo w (assembled w (cardsOf (received w (nonEmptyLines d)))) of
           Some err \<Rightarrow>
             ([SetStatus ''parse'', SetStatus ''fetch'', SetStatus ''generate'',
               SetError (PDFGenerationFailed err)], Some err)
         | None \<Rightarrow>
             ([SetStatus ''parse'', SetStatus ''fetch'', SetStatus ''generate'',
               SetPDF (assembled w (cardsOf (received w (nonEmptyLines d)))),
               SetStatus ''complete''], None)))"
proof (intro conjI impI)
  assume "(\<exists>err. convertTo8Bit w imageData = Inl err) \<or>
    (\<exists>converted err. convertTo8Bit w imageData = Inr converted \<and>
       ImageHolderByReader w converted = Inl err)"
  then show "addPages w ((uri, Inr imageData) # rest)
        = \<lparr>page_uri = uri, page_image = None\<rparr> # addPages w rest"
    by (simp add: addPage_unconverted)
next
  show "length (assembled w cards)
     = length (filter (\<lambda>r. \<not> isl r) (fetchAll w (allURIs w cards)))"
    by (rule length_assembled)
next
  show "GeneratePDF w cards =
     (case WriteTo w (assembled w cards) of
        Some err \<Rightarrow> Inl err
      | None \<Rightarrow> Inr (assembled w cards))"
    by (rule GeneratePDF_eq)
next
  assume "nonEmptyLines d \<noteq> [] \<and> errorsOf (received w (nonEmptyLines d)) = []"
  then show "handlerOps w d =
        (case WriteTo w (assembled w (cardsOf (received w (nonEmptyLines d)))) of
           Some err \<Rightarrow>
             ([SetStatus ''parse'', SetStatus ''fetch'', SetStatus ''generate'',
               SetError (PDFGenerationFailed err)], Some err)
         | None \<Rightarrow>
             ([SetStatus ''parse'', SetStatus ''fetch'', SetStatus ''generate'',
               SetPDF (assembled w (cardsOf (received w (nonEmptyLines d)))),
               SetStatus ''complete''], None))"
    by (simp add: handlerOps_resolved)
qed

lemma undecodable_convert:
  "convertTo8Bit undecodable ''png'' = Inl (DecodeImageFailed (External ''image: unknown format''))"
  by (simp add: convertTo8Bit_def undecodable_def)

theorem conversion_failure_keeps_page_witness:
  "convertTo8Bit undecodable ''png''
     = Inl (DecodeImageFailed (External ''image: unknown format'')) \<and>
   addPages undecodable [(''u1'', Inr ''png''), (''u2'', Inl (HTTPError 404)), (''u3'', Inr ''png'')]
     = [\<lparr>page_uri = ''u1'', page_image = None\<rparr>, \<lparr>page_uri = ''u3'', page_image = None\<rparr>] \<and>
   nonEmptyLines deckOpt \<noteq> [] \<and>
   errorsOf (received undecodable (nonEmptyLines deckOpt)) = [] \<and>
   WriteTo undecodable (assembled undecodable (cardsOf (received undecodable (nonEmptyLines deckOpt))))
     = None \<and>
   handlerOps undecodable deckOpt =
     ([SetStatus ''parse'', SetStatus ''fetch'', SetStatus ''generate'',
       SetPDF (assembled undecodable (cardsOf (received undecodable (nonEmptyLines deckOpt)))),
       SetStatus ''complete''], None)"
proof -
  let ?P = "assembled undecodable (cardsOf (received undecodable (nonEmptyLines deckOpt)))"
  note t = conversion_failure_keeps_page
  have cv: "(\<exists>err. convertTo8Bit undecodable ''png'' = Inl err) \<or>
    (\<exists>converted err. convertTo8Bit undecodable ''png'' = Inr converted \<and>
       ImageHolderByReader undecodable converted = Inl err)"
    using undecodable_convert by blast
  have step: "addPages undecodable ((uri, Inr ''png'') # rest)
        = \<lparr>page_uri = uri, page_image = None\<rparr> # addPages undecodable rest" for uri rest
  proof -
    from t [of undecodable "''png''" uri rest "[]" "[]"]
    have "(\<exists>err. convertTo8Bit undecodable ''png'' = Inl err) \<or>
      (\<exists>converted err. convertTo8Bit undecodable ''png'' = Inr converted \<and>
         ImageHolderByReader undecodable converted = Inl err) \<longrightarrow>
        addPages undecodable ((uri, Inr ''png'') # rest)
          = \<lparr>page_uri = uri, page_image = None\<rparr> # addPages undecodable rest"
      by (rule conjunct1)
    from this cv show ?thesis by (rule mp)
  qed
  have pages: "addPages undecodable
       [(''u1'', Inr ''png''), (''u2'', Inl (HTTPError 404)), (''u3'', Inr ''png'')]
     = [\<lparr>page_uri = ''u1'', page_image = None\<rparr>, \<lparr>page_uri = ''u3'', page_image = None\<rparr>]"
    by (simp only: step addPages.simps(1,2))
  have lines: "nonEmptyLines deckOpt \<noteq> []"
    by (simp add: catalog_deckOpt_lines)
  have resolved: "errorsOf (received undecodable (nonEmptyLines deckOpt)) = []"
    by code_simp
  have written: "WriteTo undecodable ?P = None"
    by (simp add: undecodable_def catalog_def)
  from t [of undecodable "''png''" "''u1''" "[]" "[]" deckOpt]
  have "nonEmptyLines deckOpt \<noteq> [] \<and> errorsOf (received undecodable (nonEmptyLines deckOpt)) = [] \<longrightarrow>
      handlerOps undecodable deckOpt =
        (case WriteTo undecodable ?P of
           Some err \<Rightarrow>
             ([SetStatus ''parse'', SetStatus ''fetch'', SetStatus ''generate'',
               SetError (PDFGenerationFailed err)], Some err)
         | None \<Rightarrow>
             ([SetStatus ''parse'', SetStatus ''fetch'', SetStatus ''generate'',
               SetPDF ?P, SetStatus ''complete''], None))"
    by simp
  with lines resolved have "handlerOps undecodable deckOpt =
        (case WriteTo undecodable ?P of
           Some err \<Rightarrow>
             ([SetStatus ''parse'', SetStatus ''fetch'', SetStatus ''generate'',
               SetError (PDFGenerationFailed err)], Some err)
         | None \<Rightarrow>
             ([SetStatus ''parse'', SetStatus ''fetch'', SetStatus ''generate'',
               SetPDF ?P, SetStatus ''complete''], None))"
    by blast
  then have ops: "handlerOps undecodable deckOpt =
     ([SetStatus ''parse'', SetStatus ''fetch'', SetStatus ''generate'',
       SetPDF ?P, SetStatus ''complete''], None)"
    by (simp add: written)
  from undecodable_convert pages lines resolved written ops show ?thesis
    by (intro conjI)
qed

text \<open>
  C10, as stated, fails: for one card whose image is fetched but cannot be decoded, the
  document is not empty. It has the page of that image, blank.
\<close>

theorem undecodable_image_page_counterexample:
  "fetchAll undecodable (allURIs undecodable [withImageURIs (bolt\<lparr>Quantity := 1\<rparr>)]) = [Inr ''png''] \<and>
   convertTo8Bit undecodable ''png''
     = Inl (DecodeImageFailed (External ''image: unknown format'')) \<and>
   GeneratePDF undecodable [withImageURIs (bolt\<lparr>Quantity := 1\<rparr>)]
     = Inr [\<lparr>page_uri = ''https://api.scryfall.com/cards/lea/161?format=image&version=png'',
              page_image = None\<rparr>] \<and>
   GeneratePDF undecodable [withImageURIs (bolt\<lparr>Quantity := 1\<rparr>)] \<noteq> Inr []"
  by code_simp

text \<open>
  C1. For the decklist of Lightning Bolt followed by the two-faced Delver of Secrets: when
  the goroutine of the second line acquires the semaphore first, the pages of Delver come
  before the page of Lightning Bolt; when the \<open>range\<close> loop over \<open>ImageURIs\<close> visits
  \<open>back\<close> first, the back page of Delver comes before its front page.
\<close>

theorem completion_order_decides_page_order:
  "nonEmptyLines deck2 = [''1 Lightning Bolt (lea) 161'', ''1 Delver of Secrets (isd) 51''] \<and>
   map (map_option (map page_uri) \<circ> PDF \<circ> snd)
       (fst (ProcessDecklistHandler lastLineFirst (Inr \<lparr>JobID = ''j0'', Decklist = deck2\<rparr>) oneJob))
     = [Some [''https://api.scryfall.com/cards/isd/51?format=image&version=png'',
              ''https://api.scryfall.com/cards/isd/51?format=image&version=png&face=back'',
              ''https://api.scryfall.com/cards/lea/161?format=image&version=png'']] \<and>
   map (map_option (map page_uri) \<circ> PDF \<circ> snd)
       (fst (ProcessDecklistHandler backFaceFirst (Inr \<lparr>JobID = ''j0'', Decklist = deck2\<rparr>) oneJob))
     = [Some [''https://api.scryfall.com/cards/lea/161?format=image&version=png'',
              ''https://api.scryfall.com/cards/isd/51?format=image&version=png&face=back'',
              ''https://api.scryfall.com/cards/isd/51?format=image&version=png'']]"
  by code_simp

end
